theory Spec2Isabelle
  imports Complex_Main
begin

section \<open>JavaScript values used by the program\<close>

text \<open>
  Numbers are modelled as mathematical reals (scores, weights, thresholds) or as
  naturals and integers (lengths, page numbers, positions). The non-finite doubles
  (Infinity, NaN) that a division by zero produces in JavaScript have no counterpart
  here, so every statement about scores that \<open>fuzzyWeight + cosineWeight\<close> divides
  carries the hypothesis that this sum is not zero, or fixes the weights. Rounding of
  floating-point arithmetic is not modelled. Strings are lists of characters.
\<close>

text \<open>\<open>v || d\<close> for an optional number: \<open>undefined\<close> and \<open>0\<close> are both falsy.\<close>

definition js_or :: "'a::zero option \<Rightarrow> 'a \<Rightarrow> 'a" where
  "js_or v d = (case v of None \<Rightarrow> d | Some x \<Rightarrow> if x = 0 then d else x)"

text \<open>
  \<open>parseFloat(x.toFixed(3))\<close>: \<open>toFixed\<close> works on the absolute value, takes the
  integer \<open>n\<close> with \<open>n / 1000\<close> closest to it, the larger one on a tie, and restores
  the sign.
\<close>

definition toFixed3 :: "real \<Rightarrow> real" where
  "toFixed3 x =
     (if x < 0 then - (of_int \<lfloor>- x * 1000 + 1 / 2\<rfloor> / 1000)
      else of_int \<lfloor>x * 1000 + 1 / 2\<rfloor> / 1000)"

section \<open>Configuration objects\<close>

subsection \<open>SemanticMatcher\<close>

text \<open>The \<open>config\<close> argument of the constructor: every option may be absent.\<close>

record matcher_options =
  opt_minMatchScore :: "real option"
  opt_aiEnhancedMode :: "bool option"
  opt_fuzzyWeight :: "real option"
  opt_cosineWeight :: "real option"
  opt_aiWeight :: "real option"
  opt_maxConcurrentAIRequests :: "nat option"
  opt_timeoutMs :: "nat option"

record matcher_config =
  minMatchScore :: real
  aiEnhancedMode :: bool
  fuzzyWeight :: real
  cosineWeight :: real
  aiWeight :: real
  maxConcurrentAIRequests :: nat
  timeoutMs :: nat

record matcher_stats =
  totalMatches :: nat
  aiEnhancedMatches :: nat
  traditionalMatches :: nat
  failedAIMatches :: nat

datatype js_error = Error

text \<open>
  The handler's \<open>getSemanticRelevance(topic, text)\<close> as the matcher sees it: a call
  that resolves to a number or rejects. The judge is an external language model and
  need not answer the same way twice, so the first argument is the number of the call:
  how many judge calls the matcher has issued before it.
\<close>

type_synonym relevance_judge = "nat \<Rightarrow> string \<Rightarrow> string \<Rightarrow> js_error + real"

text \<open>
  \<open>judgeCalls\<close> is not a field of the source: it counts the judge calls issued so
  far and only selects the answer of the external model.
\<close>

record matcher =
  ollamaHandler :: "relevance_judge option"
  config :: matcher_config
  stats :: matcher_stats
  judgeCalls :: nat

definition empty_stats :: matcher_stats where
  "empty_stats =
     \<lparr>totalMatches = 0, aiEnhancedMatches = 0, traditionalMatches = 0, failedAIMatches = 0\<rparr>"

definition SemanticMatcher_constructor ::
    "relevance_judge option \<Rightarrow> matcher_options \<Rightarrow> matcher" where
  "SemanticMatcher_constructor handler opts =
     \<lparr>ollamaHandler = handler,
      config =
        \<lparr>minMatchScore = js_or (opt_minMatchScore opts) (1 / 10),
         aiEnhancedMode = (opt_aiEnhancedMode opts \<noteq> Some False),
         fuzzyWeight = js_or (opt_fuzzyWeight opts) (3 / 10),
         cosineWeight = js_or (opt_cosineWeight opts) (4 / 10),
         aiWeight = js_or (opt_aiWeight opts) (3 / 10),
         maxConcurrentAIRequests = js_or (opt_maxConcurrentAIRequests opts) 3,
         timeoutMs = js_or (opt_timeoutMs opts) 30000\<rparr>,
      stats = empty_stats,
      judgeCalls = 0\<rparr>"

definition no_options :: matcher_options where
  "no_options =
     \<lparr>opt_minMatchScore = None, opt_aiEnhancedMode = None, opt_fuzzyWeight = None,
      opt_cosineWeight = None, opt_aiWeight = None, opt_maxConcurrentAIRequests = None,
      opt_timeoutMs = None\<rparr>"

subsection \<open>DocumentAnalyzer\<close>

record analyzer_options =
  opt_minTextLength :: "nat option"
  opt_sectionThreshold :: "real option"
  opt_titleThreshold :: "real option"

record analyzer =
  minTextLength :: nat
  sectionThreshold :: real
  titleThreshold :: real

definition DocumentAnalyzer_constructor :: "analyzer_options \<Rightarrow> analyzer" where
  "DocumentAnalyzer_constructor opts =
     \<lparr>minTextLength = js_or (opt_minTextLength opts) 10,
      sectionThreshold = js_or (opt_sectionThreshold opts) (7 / 10),
      titleThreshold = js_or (opt_titleThreshold opts) (8 / 10)\<rparr>"

section \<open>Score blending\<close>

text \<open>
  The guard under which the matcher consults the judge at all
  (\<open>this.ollamaHandler && this.config.aiEnhancedMode\<close>).
\<close>

definition judge_configured :: "matcher \<Rightarrow> bool" where
  "judge_configured M = (ollamaHandler M \<noteq> None \<and> aiEnhancedMode (config M))"

definition calculateFinalScore :: "matcher \<Rightarrow> real \<Rightarrow> real \<Rightarrow> real" where
  "calculateFinalScore M traditionalScore aiScore =
     (if ollamaHandler M = None \<or> \<not> aiEnhancedMode (config M) \<or> aiScore = 0
      then traditionalScore / (fuzzyWeight (config M) + cosineWeight (config M))
      else
        (let normalizedTraditional =
               traditionalScore / (fuzzyWeight (config M) + cosineWeight (config M))
         in normalizedTraditional * (1 - aiWeight (config M))
              + aiScore * aiWeight (config M)))"

section \<open>Strings and arrays\<close>

text \<open>
  Characters are the code units 0 to 255. \<open>\s\<close> matches the white space of
  ECMAScript in that range, \<open>\d\<close> the ASCII digits and \<open>\w\<close> the ASCII letters,
  digits and the underscore.
\<close>

definition is_space :: "char \<Rightarrow> bool" where
  "is_space c = ((of_char c :: nat) \<in> {9, 10, 11, 12, 13, 32, 160})"

definition is_digit :: "char \<Rightarrow> bool" where
  "is_digit c = (48 \<le> (of_char c :: nat) \<and> (of_char c :: nat) \<le> 57)"

definition is_word :: "char \<Rightarrow> bool" where
  "is_word c =
     (let n = (of_char c :: nat)
      in (65 \<le> n \<and> n \<le> 90) \<or> (97 \<le> n \<and> n \<le> 122) \<or> (48 \<le> n \<and> n \<le> 57) \<or> n = 95)"

definition trim :: "string \<Rightarrow> string" where
  "trim s = rev (dropWhile is_space (rev (dropWhile is_space s)))"

definition lower_char :: "char \<Rightarrow> char" where
  "lower_char c =
     (let n = (of_char c :: nat)
      in if (65 \<le> n \<and> n \<le> 90) \<or> (192 \<le> n \<and> n \<le> 214) \<or> (216 \<le> n \<and> n \<le> 222)
         then char_of (n + 32) else c)"

definition toLowerCase :: "string \<Rightarrow> string" where
  "toLowerCase s = map lower_char s"

text \<open>\<open>s.replace(a, b)\<close> with one-character strings: only the first occurrence changes.\<close>

fun replace_first :: "char \<Rightarrow> char \<Rightarrow> string \<Rightarrow> string" where
  "replace_first a b [] = []"
| "replace_first a b (c # cs) = (if c = a then b # cs else c # replace_first a b cs)"

text \<open>\<open>items.slice(a, b)\<close> for \<open>0 \<le> a \<le> b\<close>; the end is clamped to the length.\<close>

definition slice :: "'a list \<Rightarrow> nat \<Rightarrow> nat \<Rightarrow> 'a list" where
  "slice items a b = take (b - a) (drop a items)"

text \<open>\<open>items.indexOf(x)\<close>: the position of the first element equal to \<open>x\<close>, or -1.\<close>

fun indexOf :: "'a list \<Rightarrow> 'a \<Rightarrow> int" where
  "indexOf [] x = - 1"
| "indexOf (y # ys) x =
     (if y = x then 0 else (let r = indexOf ys x in if r < 0 then - 1 else r + 1))"

text \<open>
  \<open>xs.sort(cmp)\<close>: the sort is stable, and for a comparator that orders the elements
  consistently its result is the one this insertion sort gives. An element goes in
  front of the first element that it does not follow.
\<close>

fun insert_by :: "('a \<Rightarrow> 'a \<Rightarrow> real) \<Rightarrow> 'a \<Rightarrow> 'a list \<Rightarrow> 'a list" where
  "insert_by cmp x [] = [x]"
| "insert_by cmp x (y # ys) =
     (if cmp x y \<le> 0 then x # y # ys else y # insert_by cmp x ys)"

definition js_sort :: "('a \<Rightarrow> 'a \<Rightarrow> real) \<Rightarrow> 'a list \<Rightarrow> 'a list" where
  "js_sort cmp xs = foldr (insert_by cmp) xs []"

section \<open>OllamaHandler: the relevance judge\<close>

record ollama_handler =
  modelName :: string
  maxRetries :: nat
  handler_timeoutMs :: nat

definition OllamaHandler_constructor :: "string \<Rightarrow> ollama_handler" where
  "OllamaHandler_constructor name =
     \<lparr>modelName = name, maxRetries = 3, handler_timeoutMs = 60000\<rparr>"

record prompt_options =
  po_maxRetries :: "nat option"
  po_timeoutMs :: "nat option"

text \<open>
  One run of \<open>_runOllamaCommand\<close>: the promise resolves with the process output, or
  rejects (the timer fired and the process was killed, the process exited with a
  non-zero code, or it could not be started). The write to the child's input has no
  error listener; a failure of that write, which ends the whole program, is not an
  outcome of this model.
\<close>

datatype run_result = Resolved string | Rejected

text \<open>
  \<open>executePrompt\<close> returns the trimmed response, throws after the last attempt, or
  falls out of the loop without a value when \<open>maxRetries\<close> is 0.
\<close>

datatype prompt_result = Returned string | Thrown | Undefined

function executePrompt_loop :: "(nat \<Rightarrow> run_result) \<Rightarrow> nat \<Rightarrow> nat \<Rightarrow> prompt_result" where
  "executePrompt_loop run maxR attempt =
     (if attempt \<le> maxR then
        (case run attempt of
           Resolved response \<Rightarrow>
             if response \<noteq> [] \<and> trim response \<noteq> [] then Returned (trim response)
             else if attempt = maxR then Thrown
             else executePrompt_loop run maxR (attempt + 1)
         | Rejected \<Rightarrow>
             if attempt = maxR then Thrown
             else executePrompt_loop run maxR (attempt + 1))
      else Undefined)"
  by pat_completeness auto
termination
  by (relation "measure (\<lambda>(run, maxR, attempt). maxR + 1 - attempt)") auto

declare executePrompt_loop.simps [simp del]

text \<open>The argument \<open>run\<close> gives the outcome of each attempt, numbered from 1.\<close>

definition executePrompt ::
    "ollama_handler \<Rightarrow> prompt_options \<Rightarrow> (nat \<Rightarrow> run_result) \<Rightarrow> prompt_result" where
  "executePrompt h opts run =
     executePrompt_loop run (js_or (po_maxRetries opts) (maxRetries h)) 1"

text \<open>
  \<open>response.match(/\d*\.?\d+/)\<close>: the leftmost match. It starts at the first digit,
  or at the first dot that a digit follows, and takes the digits, then a dot and the
  digits after it when the dot is followed by a digit.
\<close>

definition fraction_part :: "string \<Rightarrow> string" where
  "fraction_part rest =
     (case rest of
        d # e # others \<Rightarrow>
          if d = CHR ''.'' \<and> is_digit e then d # takeWhile is_digit (e # others) else []
      | _ \<Rightarrow> [])"

fun first_number :: "string \<Rightarrow> string option" where
  "first_number [] = None"
| "first_number (c # cs) =
     (if is_digit c then
        Some (takeWhile is_digit (c # cs) @ fraction_part (dropWhile is_digit (c # cs)))
      else if c = CHR ''.'' \<and> (case cs of [] \<Rightarrow> False | e # _ \<Rightarrow> is_digit e) then
        Some (c # takeWhile is_digit cs)
      else first_number cs)"

text \<open>\<open>parseFloat\<close> on a string of that shape: digits, and maybe a dot and digits.\<close>

definition digits_value :: "string \<Rightarrow> nat" where
  "digits_value ds = foldl (\<lambda>acc c. 10 * acc + ((of_char c :: nat) - 48)) 0 ds"

definition parseFloat :: "string \<Rightarrow> real" where
  "parseFloat s =
     (let whole = takeWhile is_digit s; rest = dropWhile is_digit s
      in case rest of
           [] \<Rightarrow> real (digits_value whole)
         | d # after \<Rightarrow>
             real (digits_value whole)
               + real (digits_value (takeWhile is_digit after))
                   / 10 ^ length (takeWhile is_digit after))"

definition getSemanticRelevance ::
    "ollama_handler \<Rightarrow> (nat \<Rightarrow> run_result) \<Rightarrow> string \<Rightarrow> string \<Rightarrow> real" where
  "getSemanticRelevance h run topic content =
     (if content = [] \<or> length content < 10 then 0
      else
        (case executePrompt h \<lparr>po_maxRetries = None, po_timeoutMs = Some 30000\<rparr> run of
           Returned response \<Rightarrow>
             (let score =
                    parseFloat (case first_number response of None \<Rightarrow> ''0'' | Some m \<Rightarrow> m)
              in max 0 (min 1 score))
         | Thrown \<Rightarrow> 0
         | Undefined \<Rightarrow> 0))"

text \<open>
  The handler as the matcher holds it. \<open>world n\<close> gives the outcomes of the attempts
  made for the \<open>n\<close>-th judge call. \<open>getSemanticRelevance\<close> catches every failure of
  \<open>executePrompt\<close> itself, so the call never rejects.
\<close>

definition ollama_judge ::
    "ollama_handler \<Rightarrow> (nat \<Rightarrow> nat \<Rightarrow> run_result) \<Rightarrow> relevance_judge" where
  "ollama_judge h world = (\<lambda>n topic content. Inr (getSemanticRelevance h (world n) topic content))"

section \<open>The document structure\<close>

datatype label =
  Caption | Footnote | Formula | List_item | Page_footer | Page_header | Picture
  | Section_header | Table | Text | Title

fun label_name :: "label \<Rightarrow> string" where
  "label_name Caption = ''Caption''"
| "label_name Footnote = ''Footnote''"
| "label_name Formula = ''Formula''"
| "label_name List_item = ''List-item''"
| "label_name Page_footer = ''Page-footer''"
| "label_name Page_header = ''Page-header''"
| "label_name Picture = ''Picture''"
| "label_name Section_header = ''Section-header''"
| "label_name Table = ''Table''"
| "label_name Text = ''Text''"
| "label_name Title = ''Title''"

record content_item =
  c_type :: label
  c_text :: string
  c_page :: nat
  c_confidence :: real
  c_bbox :: "real list option"

text \<open>\<open>s_index\<close> is \<open>None\<close> until \<open>_postProcessStructure\<close> numbers the sections.\<close>

record doc_section =
  s_title :: string
  s_page :: nat
  s_confidence :: real
  s_bbox :: "real list option"
  s_content :: "content_item list"
  s_wordCount :: nat
  s_elementCount :: nat
  s_index :: "nat option"

record structure_metadata =
  totalElements :: nat
  textElements :: nat
  sectionHeaders :: nat
  titles :: nat

text \<open>
  The \<open>pages\<close> array of the structure, the accumulated text and the statistics are
  left out: no search index and no match reads them.
\<close>

record document_structure =
  title :: "string option"
  sections :: "doc_section list"
  metadata :: structure_metadata

text \<open>A title is used only when it is truthy: present and not the empty string.\<close>

definition has_title :: "document_structure \<Rightarrow> bool" where
  "has_title ds = (case title ds of None \<Rightarrow> False | Some t \<Rightarrow> t \<noteq> [])"

section \<open>SemanticMatcher: search index\<close>

record element =
  e_type :: string
  e_text :: string
  e_page :: nat
  e_section :: "nat option"
  e_importance :: real
  e_bbox :: "real list option"

fun getContentImportance :: "label \<Rightarrow> real" where
  "getContentImportance Title = 1"
| "getContentImportance Section_header = 8 / 10"
| "getContentImportance Text = 6 / 10"
| "getContentImportance List_item = 5 / 10"
| "getContentImportance Caption = 4 / 10"
| "getContentImportance Table = 7 / 10"
| "getContentImportance Formula = 3 / 10"
| "getContentImportance other = 4 / 10"

definition title_element :: "document_structure \<Rightarrow> element list" where
  "title_element ds =
     (if has_title ds
      then [\<lparr>e_type = ''title'', e_text = the (title ds), e_page = 1, e_section = None,
             e_importance = 1, e_bbox = None\<rparr>]
      else [])"

definition header_element :: "doc_section \<Rightarrow> element" where
  "header_element s =
     \<lparr>e_type = ''section-header'', e_text = s_title s, e_page = s_page s,
      e_section = s_index s, e_importance = 8 / 10, e_bbox = s_bbox s\<rparr>"

definition content_element :: "doc_section \<Rightarrow> content_item \<Rightarrow> element" where
  "content_element s c =
     \<lparr>e_type = replace_first CHR ''-'' CHR ''_'' (toLowerCase (label_name (c_type c))),
      e_text = c_text c, e_page = c_page c, e_section = s_index s,
      e_importance = getContentImportance (c_type c), e_bbox = c_bbox c\<rparr>"

definition section_elements :: "doc_section \<Rightarrow> element list" where
  "section_elements s =
     header_element s
       # map (content_element s)
           (filter (\<lambda>c. c_text c \<noteq> [] \<and> 10 < length (c_text c)) (s_content s))"

definition matcher_createSearchIndex :: "document_structure \<Rightarrow> element list" where
  "matcher_createSearchIndex ds = title_element ds @ concat (map section_elements (sections ds))"

section \<open>SemanticMatcher: scoring and matching\<close>

text \<open>
  \<open>fuzzyMatch\<close> and \<open>cosineSimilarity\<close> are imported from \<open>matching_utils.js\<close>, whose
  source is not part of this development; they are parameters of everything below.
\<close>

type_synonym similarity = "string \<Rightarrow> string \<Rightarrow> real"

definition calculateTraditionalScore ::
    "similarity \<Rightarrow> similarity \<Rightarrow> matcher \<Rightarrow> string \<Rightarrow> string \<Rightarrow> real" where
  "calculateTraditionalScore fuzzyMatch cosineSimilarity M topic content =
     (if content = [] \<or> length content < 3 then 0
      else fuzzyMatch topic content * fuzzyWeight (config M)
             + cosineSimilarity topic content * cosineWeight (config M))"

definition truncateText :: "string \<Rightarrow> nat \<Rightarrow> string" where
  "truncateText s maxLength =
     (if s = [] \<or> length s \<le> maxLength then s else take (maxLength - 3) s @ ''...'')"

record candidate =
  cand_element :: element
  traditionalScore :: real
  aiScore :: real

record match =
  m_document :: string
  m_topic :: string
  section_title :: string
  page_number :: nat
  importance_rank :: int
  match_score :: real
  match_type :: string
  traditional_score :: real
  ai_score :: real
  element_importance :: real
  m_bbox :: "real list option"

text \<open>The first loop: one candidate for each element with a positive traditional score.\<close>

fun collect_candidates ::
    "similarity \<Rightarrow> similarity \<Rightarrow> matcher \<Rightarrow> string \<Rightarrow> element list \<Rightarrow> candidate list" where
  "collect_candidates fz cs M topic [] = []"
| "collect_candidates fz cs M topic (e # es) =
     (let t = calculateTraditionalScore fz cs M topic (e_text e)
      in if 0 < t
         then \<lparr>cand_element = e, traditionalScore = t, aiScore = 0\<rparr>
                # collect_candidates fz cs M topic es
         else collect_candidates fz cs M topic es)"

text \<open>
  The judge calls for the top candidates. Each call takes the next call number; a
  resolved call stores its score and counts as AI-enhanced, a rejected call leaves the
  candidate as it is and counts as failed.
\<close>

fun enhance :: "relevance_judge \<Rightarrow> string \<Rightarrow> candidate list \<Rightarrow> matcher \<Rightarrow> candidate list \<times> matcher" where
  "enhance judge topic [] M = ([], M)"
| "enhance judge topic (c # cs) M =
     (case judge (judgeCalls M) topic (e_text (cand_element c)) of
        Inr score \<Rightarrow>
          (let (cs', M') =
                 enhance judge topic cs
                   (M\<lparr>judgeCalls := judgeCalls M + 1,
                      stats := (stats M)\<lparr>aiEnhancedMatches := aiEnhancedMatches (stats M) + 1\<rparr>\<rparr>)
           in (c\<lparr>aiScore := score\<rparr> # cs', M'))
      | Inl err \<Rightarrow>
          (let (cs', M') =
                 enhance judge topic cs
                   (M\<lparr>judgeCalls := judgeCalls M + 1,
                      stats := (stats M)\<lparr>failedAIMatches := failedAIMatches (stats M) + 1\<rparr>\<rparr>)
           in (c # cs', M')))"

text \<open>
  The candidates as the last loop sees them: sorted by traditional score, the first
  five (which \<open>topCandidates\<close> shares with \<open>candidates\<close>) carrying the judge's score
  when a judge is configured.
\<close>

definition scored_candidates ::
    "similarity \<Rightarrow> similarity \<Rightarrow> matcher \<Rightarrow> string \<Rightarrow> element list \<Rightarrow> candidate list \<times> matcher" where
  "scored_candidates fz cs M topic searchIndex =
     (let candidates =
            js_sort (\<lambda>a b. traditionalScore b - traditionalScore a)
              (collect_candidates fz cs M topic searchIndex);
          topCandidates = take 5 candidates
      in case ollamaHandler M of
           Some judge \<Rightarrow>
             if aiEnhancedMode (config M) \<and> topCandidates \<noteq> []
             then (let (top', M') = enhance judge topic topCandidates M
                   in (top' @ drop 5 candidates, M'))
             else (candidates, M)
         | None \<Rightarrow> (candidates, M))"

definition make_match :: "string \<Rightarrow> string \<Rightarrow> int \<Rightarrow> real \<Rightarrow> candidate \<Rightarrow> match" where
  "make_match filename topic topicIndex finalScore c =
     \<lparr>m_document = filename, m_topic = topic,
      section_title = truncateText (e_text (cand_element c)) 100,
      page_number = e_page (cand_element c),
      importance_rank = topicIndex + 1,
      match_score = toFixed3 finalScore,
      match_type = e_type (cand_element c),
      traditional_score = toFixed3 (traditionalScore c),
      ai_score = toFixed3 (aiScore c),
      element_importance = e_importance (cand_element c),
      m_bbox = e_bbox (cand_element c)\<rparr>"

text \<open>The last loop: every candidate, in order, is kept or dropped by its final score.\<close>

fun emit_matches :: "matcher \<Rightarrow> string \<Rightarrow> string \<Rightarrow> int \<Rightarrow> candidate list \<Rightarrow> match list" where
  "emit_matches M filename topic topicIndex [] = []"
| "emit_matches M filename topic topicIndex (c # cs) =
     (let finalScore = calculateFinalScore M (traditionalScore c) (aiScore c)
      in if minMatchScore (config M) \<le> finalScore
         then make_match filename topic topicIndex finalScore c
                # emit_matches M filename topic topicIndex cs
         else emit_matches M filename topic topicIndex cs)"

definition findTopicMatches ::
    "similarity \<Rightarrow> similarity \<Rightarrow> matcher \<Rightarrow> string \<Rightarrow> element list \<Rightarrow> string \<Rightarrow> int
      \<Rightarrow> match list \<times> matcher" where
  "findTopicMatches fz cs M topic searchIndex filename topicIndex =
     (let (candidates, M1) = scored_candidates fz cs M topic searchIndex;
          matches = emit_matches M1 filename topic topicIndex candidates;
          st1 = (stats M1)\<lparr>totalMatches := totalMatches (stats M1) + length matches\<rparr>;
          st2 = (if ollamaHandler M1 = None \<or> \<not> aiEnhancedMode (config M1)
                 then st1\<lparr>traditionalMatches := traditionalMatches st1 + length matches\<rparr>
                 else st1)
      in (matches, M1\<lparr>stats := st2\<rparr>))"

text \<open>
  \<open>_createBatches\<close>. The loop does not end when \<open>batchSize\<close> is 0 and there are
  items; not returning is the value \<open>None\<close>.
\<close>

partial_function (option) createBatches_loop ::
    "'a list \<Rightarrow> nat \<Rightarrow> nat \<Rightarrow> 'a list list \<Rightarrow> 'a list list option" where
  "createBatches_loop items batchSize i batches =
     (if i < length items
      then createBatches_loop items batchSize (i + batchSize)
             (batches @ [slice items i (i + batchSize)])
      else Some batches)"

declare createBatches_loop.simps [code]

definition createBatches :: "'a list \<Rightarrow> nat \<Rightarrow> 'a list list option" where
  "createBatches items batchSize = createBatches_loop items batchSize 0 []"

text \<open>
  One batch: \<open>batch.map\<close> starts the topics in order, each with the rank index
  \<open>topics.indexOf(topic)\<close>, and \<open>Promise.all\<close> gives their results in the same order.
\<close>

fun process_batch ::
    "similarity \<Rightarrow> similarity \<Rightarrow> string list \<Rightarrow> element list \<Rightarrow> string \<Rightarrow> matcher \<Rightarrow> string list
      \<Rightarrow> match list \<times> matcher" where
  "process_batch fz cs topics searchIndex filename M [] = ([], M)"
| "process_batch fz cs topics searchIndex filename M (topic # rest) =
     (let (ms, M1) = findTopicMatches fz cs M topic searchIndex filename (indexOf topics topic);
          (ms', M2) = process_batch fz cs topics searchIndex filename M1 rest
      in (ms @ ms', M2))"

fun process_batches ::
    "similarity \<Rightarrow> similarity \<Rightarrow> string list \<Rightarrow> element list \<Rightarrow> string \<Rightarrow> matcher
      \<Rightarrow> string list list \<Rightarrow> match list \<times> matcher" where
  "process_batches fz cs topics searchIndex filename M [] = ([], M)"
| "process_batches fz cs topics searchIndex filename M (batch # rest) =
     (let (ms, M1) = process_batch fz cs topics searchIndex filename M batch;
          (ms', M2) = process_batches fz cs topics searchIndex filename M1 rest
      in (ms @ ms', M2))"

definition compare_matches :: "match \<Rightarrow> match \<Rightarrow> real" where
  "compare_matches a b =
     (if importance_rank a \<noteq> importance_rank b
      then of_int (importance_rank a - importance_rank b)
      else match_score b - match_score a)"

definition findBestMatches ::
    "similarity \<Rightarrow> similarity \<Rightarrow> matcher \<Rightarrow> string list \<Rightarrow> document_structure \<Rightarrow> string
      \<Rightarrow> (match list \<times> matcher) option" where
  "findBestMatches fz cs M topics documentStructure filename =
     (let searchIndex = matcher_createSearchIndex documentStructure
      in case createBatches topics (maxConcurrentAIRequests (config M)) of
           None \<Rightarrow> None
         | Some topicBatches \<Rightarrow>
             (let (matches, M') = process_batches fz cs topics searchIndex filename M topicBatches
              in Some (js_sort compare_matches matches, M')))"

section \<open>Pipeline: matching across documents\<close>

record analysis =
  a_filename :: string
  a_structure :: document_structure

fun match_documents ::
    "similarity \<Rightarrow> similarity \<Rightarrow> matcher \<Rightarrow> string list \<Rightarrow> analysis list
      \<Rightarrow> (match list \<times> matcher) option" where
  "match_documents fz cs M topics [] = Some ([], M)"
| "match_documents fz cs M topics (a # rest) =
     (case findBestMatches fz cs M topics (a_structure a) (a_filename a) of
        None \<Rightarrow> None
      | Some (ms, M1) \<Rightarrow>
          (case match_documents fz cs M1 topics rest of
             None \<Rightarrow> None
           | Some (ms', M2) \<Rightarrow> Some (ms @ ms', M2)))"

definition performSemanticMatching ::
    "similarity \<Rightarrow> similarity \<Rightarrow> matcher \<Rightarrow> string list \<Rightarrow> analysis list
      \<Rightarrow> (match list \<times> matcher) option" where
  "performSemanticMatching fz cs M topics analysisResults =
     (case match_documents fz cs M topics analysisResults of
        None \<Rightarrow> None
      | Some (allMatches, M') \<Rightarrow> Some (js_sort compare_matches allMatches, M'))"

section \<open>DocumentAnalyzer: structure assembly\<close>

record detection =
  det_label :: label
  extractedText :: string
  confidence :: real
  det_bbox :: "real list"
  center :: "int \<times> int"

record page_result =
  pageNumber :: nat
  detections :: "detection list"

text \<open>
  The comparator of the reading-order sort. Inside the band of 20 units it orders by
  the horizontal centre, so it is not transitive and the order the engine's sort gives
  is not determined by it; the sort is a parameter of \<open>createDocumentStructure\<close>.
\<close>

definition reading_order :: "detection \<Rightarrow> detection \<Rightarrow> real" where
  "reading_order a b =
     (let yDiff = snd (center a) - snd (center b)
      in if 20 < \<bar>yDiff\<bar> then of_int yDiff else of_int (fst (center a) - fst (center b)))"

text \<open>\<open>_cleanText\<close>: white-space runs become one space, then only the allowed
  characters stay, then the ends are trimmed.\<close>

fun collapse_spaces :: "bool \<Rightarrow> string \<Rightarrow> string" where
  "collapse_spaces in_run [] = []"
| "collapse_spaces in_run (c # cs) =
     (if is_space c
      then (if in_run then collapse_spaces True cs else CHR '' '' # collapse_spaces True cs)
      else c # collapse_spaces False cs)"

definition allowed_char :: "char \<Rightarrow> bool" where
  "allowed_char c = (is_word c \<or> is_space c \<or> c \<in> set ''-.,!?:;()'')"

definition cleanText :: "string \<Rightarrow> string" where
  "cleanText s = (if s = [] then [] else trim (filter allowed_char (collapse_spaces False s)))"

text \<open>\<open>s.split(/\s+/).length\<close>: one more than the number of white-space runs.\<close>

fun space_runs :: "bool \<Rightarrow> string \<Rightarrow> nat" where
  "space_runs in_run [] = 0"
| "space_runs in_run (c # cs) =
     (if is_space c then (if in_run then 0 else 1) + space_runs True cs
      else space_runs False cs)"

definition split_count :: "string \<Rightarrow> nat" where
  "split_count s = 1 + space_runs False s"

definition empty_structure :: document_structure where
  "empty_structure =
     \<lparr>title = None, sections = [],
      metadata = \<lparr>totalElements = 0, textElements = 0, sectionHeaders = 0, titles = 0\<rparr>\<rparr>"

definition count_detection :: "detection \<Rightarrow> structure_metadata \<Rightarrow> structure_metadata" where
  "count_detection d md =
     \<lparr>totalElements = totalElements md + 1,
      textElements = textElements md + (if det_label d \<in> {Text, List_item} then 1 else 0),
      sectionHeaders = sectionHeaders md + (if det_label d = Section_header then 1 else 0),
      titles = titles md + (if det_label d = Title then 1 else 0)\<rparr>"

text \<open>\<open>if (currentSection && currentSection.content.length > 0) sections.push(...)\<close>\<close>

definition push_section :: "doc_section option \<Rightarrow> document_structure \<Rightarrow> document_structure" where
  "push_section cur st =
     (case cur of
        None \<Rightarrow> st
      | Some s \<Rightarrow> if s_content s \<noteq> [] then st\<lparr>sections := sections st @ [s]\<rparr> else st)"

text \<open>The body of the loop over the detections of a page; the state is the structure
  built so far and the \<open>currentSection\<close> cursor.\<close>

definition process_detection ::
    "analyzer \<Rightarrow> nat \<Rightarrow> document_structure \<times> doc_section option \<Rightarrow> detection
      \<Rightarrow> document_structure \<times> doc_section option" where
  "process_detection an pageNo state d =
     (let st = (fst state)\<lparr>metadata := count_detection d (metadata (fst state))\<rparr>;
          cur = snd state
      in if det_label d = Title \<and> \<not> has_title st \<and> titleThreshold an \<le> confidence d
            \<and> extractedText d \<noteq> []
         then (st\<lparr>title := Some (cleanText (extractedText d))\<rparr>, cur)
         else if det_label d = Section_header \<and> sectionThreshold an \<le> confidence d
            \<and> extractedText d \<noteq> []
         then (push_section cur st,
               Some \<lparr>s_title = cleanText (extractedText d), s_page = pageNo,
                     s_confidence = confidence d, s_bbox = Some (det_bbox d), s_content = [],
                     s_wordCount = 0, s_elementCount = 0, s_index = None\<rparr>)
         else
           (case cur of
              None \<Rightarrow> (st, cur)
            | Some s \<Rightarrow>
                if det_label d \<in> {Text, List_item, Caption} \<and> extractedText d \<noteq> []
                then (let clean = cleanText (extractedText d)
                      in if minTextLength an \<le> length clean
                         then (st,
                               Some (s\<lparr>s_content :=
                                          s_content s
                                            @ [\<lparr>c_type = det_label d, c_text = clean, c_page = pageNo,
                                                c_confidence = confidence d,
                                                c_bbox = Some (det_bbox d)\<rparr>],
                                        s_wordCount := s_wordCount s + split_count clean,
                                        s_elementCount := s_elementCount s + 1\<rparr>))
                         else (st, cur))
                else (st, cur)))"

definition process_page ::
    "analyzer \<Rightarrow> (detection list \<Rightarrow> detection list)
      \<Rightarrow> document_structure \<times> doc_section option \<Rightarrow> page_result
      \<Rightarrow> document_structure \<times> doc_section option" where
  "process_page an sort_detections state p =
     foldl (process_detection an (pageNumber p)) state (sort_detections (detections p))"

text \<open>\<open>section.index = index + 1\<close> for every section, counting from \<open>index\<close>.\<close>

fun number_sections :: "nat \<Rightarrow> doc_section list \<Rightarrow> doc_section list" where
  "number_sections index [] = []"
| "number_sections index (s # ss) = s\<lparr>s_index := Some (index + 1)\<rparr> # number_sections (index + 1) ss"

definition postProcessStructure :: "document_structure \<Rightarrow> document_structure" where
  "postProcessStructure st =
     (let kept = filter (\<lambda>s. s_content s \<noteq> [] \<or> 3 < length (s_title s)) (sections st);
          sorted = js_sort (\<lambda>a b. real (s_page a) - real (s_page b)) kept;
          st1 = st\<lparr>sections := sorted\<rparr>;
          st2 = (case sorted of
                   [] \<Rightarrow> st1
                 | firstSection # others \<Rightarrow>
                     if \<not> has_title st1 \<and> 5 < length (s_title firstSection)
                     then st1\<lparr>title := Some (s_title firstSection)\<rparr> else st1)
      in st2\<lparr>sections := number_sections 0 sorted\<rparr>)"

text \<open>The \<open>structure\<close> component of what \<open>createDocumentStructure\<close> returns.\<close>

definition createDocumentStructure ::
    "analyzer \<Rightarrow> (detection list \<Rightarrow> detection list) \<Rightarrow> page_result list \<Rightarrow> document_structure" where
  "createDocumentStructure an sort_detections pageResults =
     (let state = foldl (process_page an sort_detections) (empty_structure, None) pageResults
      in postProcessStructure (push_section (snd state) (fst state)))"

section \<open>DocumentAnalyzer: the persisted search index\<close>

record index_entry =
  x_type :: string
  x_text :: string
  x_page :: nat
  x_section :: "nat option"
  x_importance :: real

definition title_entry :: "document_structure \<Rightarrow> index_entry list" where
  "title_entry ds =
     (if has_title ds
      then [\<lparr>x_type = ''title'', x_text = the (title ds), x_page = 1, x_section = None,
             x_importance = 1\<rparr>]
      else [])"

definition header_entry :: "doc_section \<Rightarrow> index_entry" where
  "header_entry s =
     \<lparr>x_type = ''section-header'', x_text = s_title s, x_page = s_page s,
      x_section = s_index s, x_importance = 8 / 10\<rparr>"

definition content_entry :: "doc_section \<Rightarrow> content_item \<Rightarrow> index_entry" where
  "content_entry s c =
     \<lparr>x_type = toLowerCase (label_name (c_type c)), x_text = c_text c, x_page = c_page c,
      x_section = s_index s, x_importance = (if c_type c = Text then 6 / 10 else 4 / 10)\<rparr>"

definition section_entries :: "doc_section \<Rightarrow> index_entry list" where
  "section_entries s = header_entry s # map (content_entry s) (s_content s)"

definition analyzer_createSearchIndex :: "document_structure \<Rightarrow> index_entry list" where
  "analyzer_createSearchIndex ds = title_entry ds @ concat (map section_entries (sections ds))"

text \<open>The fields of a matcher element that a persisted entry has too.\<close>

definition entry_of :: "element \<Rightarrow> index_entry" where
  "entry_of e =
     \<lparr>x_type = e_type e, x_text = e_text e, x_page = e_page e, x_section = e_section e,
      x_importance = e_importance e\<rparr>"

section \<open>The batch loop as a scheduler\<close>









text \<open>The number of judge calls \<open>_findTopicMatches\<close> issues for a topic.\<close>

definition judge_call_count ::
    "similarity \<Rightarrow> similarity \<Rightarrow> matcher \<Rightarrow> element list \<Rightarrow> string \<Rightarrow> nat" where
  "judge_call_count fz cs M searchIndex topic =
     (if judge_configured M then length (take 5 (collect_candidates fz cs M topic searchIndex))
      else 0)"




section \<open>Predicates of the specification\<close>

text \<open>The order of the emitted list: rank ascending, score descending within a rank.\<close>

definition match_order :: "match \<Rightarrow> match \<Rightarrow> bool" where
  "match_order a b =
     (importance_rank a \<le> importance_rank b
      \<and> (importance_rank a = importance_rank b \<longrightarrow> match_score b \<le> match_score a))"

definition unit_similarity :: "similarity \<Rightarrow> bool" where
  "unit_similarity f = (\<forall>a b. 0 \<le> f a b \<and> f a b \<le> 1)"

definition default_weights :: "matcher \<Rightarrow> bool" where
  "default_weights M =
     (fuzzyWeight (config M) = 3 / 10 \<and> cosineWeight (config M) = 4 / 10
      \<and> aiWeight (config M) = 3 / 10)"

definition unit_judge :: "relevance_judge \<Rightarrow> bool" where
  "unit_judge judge =
     (\<forall>n a b. case judge n a b of Inl e \<Rightarrow> True | Inr s \<Rightarrow> 0 \<le> s \<and> s \<le> 1)"

definition cand_ok :: "candidate \<Rightarrow> bool" where
  "cand_ok c =
     (0 \<le> traditionalScore c \<and> traditionalScore c \<le> 7 / 10 \<and> 0 \<le> aiScore c \<and> aiScore c \<le> 1)"

definition unit_scores :: "match \<Rightarrow> bool" where
  "unit_scores m =
     (0 \<le> match_score m \<and> match_score m \<le> 1
      \<and> 0 \<le> traditional_score m \<and> traditional_score m \<le> 1
      \<and> 0 \<le> ai_score m \<and> ai_score m \<le> 1)"

text \<open>Matching changes the statistics and the call counter of the matcher only.\<close>

definition same_setup :: "matcher \<Rightarrow> matcher \<Rightarrow> bool" where
  "same_setup M M' = (ollamaHandler M' = ollamaHandler M \<and> config M' = config M)"

definition candidate_final :: "matcher \<Rightarrow> candidate \<Rightarrow> real" where
  "candidate_final M c = calculateFinalScore M (traditionalScore c) (aiScore c)"

text \<open>The elements of the search index that a topic scores above 0: its candidates.\<close>

definition positive_elements ::
    "similarity \<Rightarrow> similarity \<Rightarrow> matcher \<Rightarrow> string \<Rightarrow> element list \<Rightarrow> element list" where
  "positive_elements fz cs M topic searchIndex =
     filter (\<lambda>e. 0 < calculateTraditionalScore fz cs M topic (e_text e)) searchIndex"





section \<open>Sample inputs\<close>

definition sample_similarity :: similarity where
  "sample_similarity topic content = (if take 4 topic = take 4 content then 1 else 1 / 4)"

definition near_similarity :: similarity where
  "near_similarity topic content = 1253 / 10000"

definition plain_matcher :: matcher where
  "plain_matcher = SemanticMatcher_constructor None no_options"

definition strict_matcher :: matcher where
  "strict_matcher =
     SemanticMatcher_constructor None (no_options\<lparr>opt_minMatchScore := Some (1252 / 10000)\<rparr>)"

text \<open>A judge whose every attempt fails, and one that answers on the second attempt.\<close>

definition failing_world :: "nat \<Rightarrow> nat \<Rightarrow> run_result" where
  "failing_world n attempt = Rejected"

definition answering_world :: "nat \<Rightarrow> nat \<Rightarrow> run_result" where
  "answering_world n attempt = (if attempt < 2 then Rejected else Resolved ''Score: 0.9'')"

definition judged_matcher :: "(nat \<Rightarrow> nat \<Rightarrow> run_result) \<Rightarrow> matcher" where
  "judged_matcher world =
     SemanticMatcher_constructor
       (Some (ollama_judge (OllamaHandler_constructor ''qwen'') world)) no_options"

text \<open>A handler whose \<open>getSemanticRelevance\<close> rejects.\<close>

definition rejecting_matcher :: matcher where
  "rejecting_matcher = SemanticMatcher_constructor (Some (\<lambda>n topic content. Inl Error)) no_options"

definition default_analyzer :: analyzer where
  "default_analyzer =
     DocumentAnalyzer_constructor
       \<lparr>opt_minTextLength = None, opt_sectionThreshold = None, opt_titleThreshold = None\<rparr>"

text \<open>Scenario A of the specification, the text detected before its header.\<close>

definition scenario_A :: "page_result list" where
  "scenario_A =
     [\<lparr>pageNumber = 1,
       detections =
         [\<lparr>det_label = Title, extractedText = ''Form Design Guide'', confidence = 9 / 10,
           det_bbox = [0, 0, 10, 10], center = (5, 5)\<rparr>]\<rparr>,
      \<lparr>pageNumber = 3,
       detections =
         [\<lparr>det_label = Text, extractedText = ''Use the Prepare Form tool to add fields.'',
           confidence = 7 / 10, det_bbox = [0, 40, 10, 50], center = (5, 45)\<rparr>,
          \<lparr>det_label = Section_header, extractedText = ''Create Fillable PDFs'',
           confidence = 85 / 100, det_bbox = [0, 0, 10, 10], center = (5, 5)\<rparr>]\<rparr>]"

definition structure_A :: document_structure where
  "structure_A =
     \<lparr>title = Some ''Form Design Guide'',
      sections =
        [\<lparr>s_title = ''Create Fillable PDFs'', s_page = 3, s_confidence = 85 / 100,
          s_bbox = Some [0, 0, 10, 10],
          s_content =
            [\<lparr>c_type = Text, c_text = ''Use the Prepare Form tool to add fields.'',
              c_page = 3, c_confidence = 7 / 10, c_bbox = Some [0, 40, 10, 50]\<rparr>],
          s_wordCount = 8, s_elementCount = 1, s_index = Some 1\<rparr>],
      metadata = \<lparr>totalElements = 3, textElements = 1, sectionHeaders = 1, titles = 1\<rparr>\<rparr>"

text \<open>A page with a list item and a text of exactly ten characters.\<close>

definition scenario_B :: "page_result list" where
  "scenario_B =
     [\<lparr>pageNumber = 1,
       detections =
         [\<lparr>det_label = Section_header, extractedText = ''Forms'', confidence = 9 / 10,
           det_bbox = [0, 0, 10, 10], center = (5, 5)\<rparr>,
          \<lparr>det_label = List_item, extractedText = ''Open the Prepare Form tool'',
           confidence = 8 / 10, det_bbox = [0, 20, 10, 30], center = (5, 25)\<rparr>,
          \<lparr>det_label = Text, extractedText = ''Add fields'', confidence = 8 / 10,
           det_bbox = [0, 40, 10, 50], center = (5, 45)\<rparr>]\<rparr>]"

definition structure_B :: document_structure where
  "structure_B =
     \<lparr>title = None,
      sections =
        [\<lparr>s_title = ''Forms'', s_page = 1, s_confidence = 9 / 10, s_bbox = Some [0, 0, 10, 10],
          s_content =
            [\<lparr>c_type = List_item, c_text = ''Open the Prepare Form tool'', c_page = 1,
              c_confidence = 8 / 10, c_bbox = Some [0, 20, 10, 30]\<rparr>,
             \<lparr>c_type = Text, c_text = ''Add fields'', c_page = 1,
              c_confidence = 8 / 10, c_bbox = Some [0, 40, 10, 50]\<rparr>],
          s_wordCount = 7, s_elementCount = 2, s_index = Some 1\<rparr>],
      metadata = \<lparr>totalElements = 3, textElements = 2, sectionHeaders = 1, titles = 0\<rparr>\<rparr>"

text \<open>A document with seven searchable elements, more than the judge sees.\<close>

definition structure_C :: document_structure where
  "structure_C =
     \<lparr>title = Some ''Form Design Guide'',
      sections =
        [\<lparr>s_title = ''Create Fillable PDFs'', s_page = 3, s_confidence = 85 / 100,
          s_bbox = None,
          s_content =
            [\<lparr>c_type = Text, c_text = ''Form fields collect data.'', c_page = 3,
              c_confidence = 7 / 10, c_bbox = None\<rparr>,
             \<lparr>c_type = Text, c_text = ''Use the Prepare Form tool.'', c_page = 3,
              c_confidence = 7 / 10, c_bbox = None\<rparr>,
             \<lparr>c_type = Text, c_text = ''Add text fields and buttons.'', c_page = 3,
              c_confidence = 7 / 10, c_bbox = None\<rparr>,
             \<lparr>c_type = Text, c_text = ''Set the tab order of fields.'', c_page = 4,
              c_confidence = 7 / 10, c_bbox = None\<rparr>,
             \<lparr>c_type = Text, c_text = ''Distribute the finished form.'', c_page = 4,
              c_confidence = 7 / 10, c_bbox = None\<rparr>],
          s_wordCount = 23, s_elementCount = 5, s_index = Some 1\<rparr>],
      metadata = \<lparr>totalElements = 7, textElements = 5, sectionHeaders = 1, titles = 1\<rparr>\<rparr>"

definition two_documents :: "analysis list" where
  "two_documents =
     [\<lparr>a_filename = ''a.pdf'', a_structure = structure_A\<rparr>,
      \<lparr>a_filename = ''b.pdf'', a_structure = structure_B\<rparr>]"

definition repeated_topics :: "string list" where
  "repeated_topics = [''Form Creation'', ''Create tables'', ''Form Creation'']"




section \<open>Sorting\<close>

lemma set_insert_by: "set (insert_by cmp x xs) = insert x (set xs)"
  by (induction xs) auto

lemma set_js_sort: "set (js_sort cmp xs) = set xs"
  by (induction xs) (auto simp: js_sort_def set_insert_by)

lemma length_insert_by: "length (insert_by cmp x xs) = Suc (length xs)"
  by (induction xs) auto

lemma length_js_sort: "length (js_sort cmp xs) = length xs"
  by (induction xs) (auto simp: js_sort_def length_insert_by)

lemma compare_matches_le: "compare_matches a b \<le> 0 \<longleftrightarrow> match_order a b"
  by (auto simp: compare_matches_def match_order_def)

lemma match_order_trans: "match_order a b \<Longrightarrow> match_order b c \<Longrightarrow> match_order a c"
  by (auto simp: match_order_def)

lemma match_order_total: "\<not> match_order a b \<Longrightarrow> match_order b a"
  by (auto simp: match_order_def)

lemma sorted_insert_matches:
  "sorted_wrt match_order xs \<Longrightarrow> sorted_wrt match_order (insert_by compare_matches x xs)"
proof (induction xs)
  case Nil
  then show ?case by simp
next
  case (Cons y ys)
  show ?case
  proof (cases "compare_matches x y \<le> 0")
    case True
    then have xy: "match_order x y" by (simp add: compare_matches_le)
    have "\<forall>z\<in>set ys. match_order x z"
      using Cons.prems xy by (auto intro: match_order_trans)
    with True xy Cons.prems show ?thesis by simp
  next
    case False
    then have yx: "match_order y x"
      by (simp add: compare_matches_le match_order_total)
    from Cons have "sorted_wrt match_order (insert_by compare_matches x ys)" by simp
    with False yx Cons.prems show ?thesis
      by (auto simp: set_insert_by)
  qed
qed

lemma sorted_js_sort_matches: "sorted_wrt match_order (js_sort compare_matches xs)"
  by (induction xs) (auto simp: js_sort_def sorted_insert_matches)

section \<open>Rounding and the judge's score\<close>

lemma toFixed3_unit: "0 \<le> x \<Longrightarrow> x \<le> 1 \<Longrightarrow> 0 \<le> toFixed3 x \<and> toFixed3 x \<le> 1"
proof -
  assume a: "0 \<le> x" "x \<le> 1"
  have l: "0 \<le> \<lfloor>x * 1000 + 1 / 2\<rfloor>" using a by simp
  have "x * 1000 + 1 / 2 < 1001" using a by simp
  then have u: "\<lfloor>x * 1000 + 1 / 2\<rfloor> \<le> 1000" by (simp add: floor_le_iff)
  from l have "(0::real) \<le> of_int \<lfloor>x * 1000 + 1 / 2\<rfloor>" by simp
  moreover from u have "(of_int \<lfloor>x * 1000 + 1 / 2\<rfloor> :: real) \<le> 1000"
    by (metis of_int_le_iff of_int_numeral)
  ultimately show ?thesis using a by (simp add: toFixed3_def)
qed

lemma toFixed3_ge_grid:
  assumes "m = of_int k / 1000" "m \<le> x"
  shows "m \<le> toFixed3 x"
proof (cases "x < 0")
  case False
  have "of_int k \<le> x * 1000" using assms by (simp add: field_simps)
  then have "of_int k \<le> x * 1000 + 1 / 2" by simp
  then have "k \<le> \<lfloor>x * 1000 + 1 / 2\<rfloor>" by (simp add: le_floor_iff)
  then have "(of_int k :: real) \<le> of_int \<lfloor>x * 1000 + 1 / 2\<rfloor>" by simp
  with False assms show ?thesis by (simp add: toFixed3_def divide_right_mono)
next
  case True
  have "of_int k \<le> x * 1000" using assms by (simp add: field_simps)
  then have "- x * 1000 + 1 / 2 < of_int (- k) + 1" by simp
  then have "\<lfloor>- x * 1000 + 1 / 2\<rfloor> \<le> - k" by (simp only: floor_le_iff)
  then have "k \<le> - \<lfloor>- x * 1000 + 1 / 2\<rfloor>" by simp
  then have "(of_int k :: real) \<le> of_int (- \<lfloor>- x * 1000 + 1 / 2\<rfloor>)" by (simp only: of_int_le_iff)
  then have "(of_int k :: real) / 1000 \<le> of_int (- \<lfloor>- x * 1000 + 1 / 2\<rfloor>) / 1000"
    by (simp add: divide_right_mono)
  with True assms show ?thesis by (simp add: toFixed3_def)
qed

lemma getSemanticRelevance_unit:
  "0 \<le> getSemanticRelevance h run topic content \<and> getSemanticRelevance h run topic content \<le> 1"
  by (simp add: getSemanticRelevance_def Let_def split: prompt_result.splits)

lemma unit_judge_ollama: "unit_judge (ollama_judge h world)"
  by (simp add: unit_judge_def ollama_judge_def getSemanticRelevance_unit)

section \<open>The batches\<close>

lemma createBatches_guard:
  fixes w k n :: nat
  assumes "0 < w"
  shows "k * w < n \<longleftrightarrow> k < (n + w - 1) div w"
proof -
  have "k < (n + w - 1) div w \<longleftrightarrow> Suc k \<le> (n + w - 1) div w" by auto
  also have "\<dots> \<longleftrightarrow> Suc k * w \<le> n + w - 1"
    using assms by (simp add: less_eq_div_iff_mult_less_eq)
  also have "\<dots> \<longleftrightarrow> k * w < n" using assms by auto
  finally show ?thesis by simp
qed

lemma createBatches_loop_closed:
  assumes "0 < w"
  shows "createBatches_loop items w (k * w) acc
           = Some (acc @ map (\<lambda>j. slice items (j * w) (j * w + w))
                           [k..<(length items + w - 1) div w])"
proof (induction "(length items + w - 1) div w - k" arbitrary: k acc)
  case 0
  then have "\<not> k < (length items + w - 1) div w" by simp
  then have "\<not> k * w < length items" using createBatches_guard[OF assms] by simp
  moreover have "[k..<(length items + w - 1) div w] = []" using 0 by simp
  ultimately show ?case by (subst createBatches_loop.simps) simp
next
  case (Suc d)
  then have lt: "k < (length items + w - 1) div w" by simp
  then have g: "k * w < length items" using createBatches_guard[OF assms] by simp
  have d: "d = (length items + w - 1) div w - Suc k" using Suc.hyps(2) by simp
  have "createBatches_loop items w (k * w) acc
          = createBatches_loop items w (Suc k * w) (acc @ [slice items (k * w) (k * w + w)])"
    using g by (subst createBatches_loop.simps) (simp add: add.commute)
  also have "\<dots> = Some ((acc @ [slice items (k * w) (k * w + w)])
                        @ map (\<lambda>j. slice items (j * w) (j * w + w))
                            [Suc k..<(length items + w - 1) div w])"
    using Suc.hyps(1)[OF d] .
  also have "\<dots> = Some (acc @ map (\<lambda>j. slice items (j * w) (j * w + w))
                            [k..<(length items + w - 1) div w])"
    using lt by (simp add: upt_conv_Cons)
  finally show ?case .
qed

lemma createBatches_closed:
  "0 < w \<Longrightarrow>
   createBatches items w
     = Some (map (\<lambda>j. slice items (j * w) (j * w + w)) [0..<(length items + w - 1) div w])"
  using createBatches_loop_closed[of w items 0 "[]"] by (simp add: createBatches_def)



section \<open>Matching leaves the configuration alone\<close>

lemma enhance_setup: "enhance judge topic cs M = (cs', M') \<Longrightarrow> same_setup M M'"
proof (induction cs arbitrary: M cs' M')
  case Nil
  then show ?case by (simp add: same_setup_def)
next
  case (Cons c cs)
  show ?case
  proof (cases "judge (judgeCalls M) topic (e_text (cand_element c))")
    case (Inl e)
    let ?M1 = "M\<lparr>judgeCalls := judgeCalls M + 1,
                  stats := (stats M)\<lparr>failedAIMatches := failedAIMatches (stats M) + 1\<rparr>\<rparr>"
    obtain cs1 M1 where r: "enhance judge topic cs ?M1 = (cs1, M1)" by fastforce
    with Cons.prems Inl have "M' = M1" by simp
    with Cons.IH[OF r] show ?thesis by (simp add: same_setup_def)
  next
    case (Inr s)
    let ?M1 = "M\<lparr>judgeCalls := judgeCalls M + 1,
                  stats := (stats M)\<lparr>aiEnhancedMatches := aiEnhancedMatches (stats M) + 1\<rparr>\<rparr>"
    obtain cs1 M1 where r: "enhance judge topic cs ?M1 = (cs1, M1)" by fastforce
    with Cons.prems Inr have "M' = M1" by simp
    with Cons.IH[OF r] show ?thesis by (simp add: same_setup_def)
  qed
qed

lemma scored_candidates_setup:
  assumes "scored_candidates fz cs M topic es = (cands, M')"
  shows "same_setup M M'"
proof -
  let ?sorted = "js_sort (\<lambda>a b. traditionalScore b - traditionalScore a)
                   (collect_candidates fz cs M topic es)"
  show ?thesis
  proof (cases "ollamaHandler M")
    case None
    with assms have "M' = M" by (auto simp: scored_candidates_def Let_def)
    then show ?thesis by (simp add: same_setup_def)
  next
    case (Some judge)
    show ?thesis
    proof (cases "aiEnhancedMode (config M) \<and> take 5 ?sorted \<noteq> []")
      case False
      with Some assms have "M' = M" by (auto simp: scored_candidates_def Let_def)
      then show ?thesis by (simp add: same_setup_def)
    next
      case True
      obtain top' M1 where r: "enhance judge topic (take 5 ?sorted) M = (top', M1)" by fastforce
      with True Some assms have "M' = M1" by (auto simp: scored_candidates_def Let_def)
      with enhance_setup[OF r] show ?thesis by simp
    qed
  qed
qed

lemma findTopicMatches_setup:
  assumes "findTopicMatches fz cs M topic es filename ti = (ms, M')"
  shows "same_setup M M'"
proof -
  obtain cands M1 where sc: "scored_candidates fz cs M topic es = (cands, M1)" by fastforce
  with assms have "ollamaHandler M' = ollamaHandler M1" "config M' = config M1"
    by (auto simp: findTopicMatches_def Let_def)
  with scored_candidates_setup[OF sc] show ?thesis by (simp add: same_setup_def)
qed

lemma process_batch_setup:
  "process_batch fz cs topics es filename M batch = (ms, M') \<Longrightarrow> same_setup M M'"
proof (induction batch arbitrary: M ms M')
  case Nil
  then show ?case by (simp add: same_setup_def)
next
  case (Cons topic rest)
  obtain ms1 M1 where r1: "findTopicMatches fz cs M topic es filename (indexOf topics topic) = (ms1, M1)"
    by fastforce
  obtain ms2 M2 where r2: "process_batch fz cs topics es filename M1 rest = (ms2, M2)" by fastforce
  from Cons.prems r1 r2 have "M' = M2" by simp
  with findTopicMatches_setup[OF r1] Cons.IH[OF r2] show ?case by (simp add: same_setup_def)
qed

lemma process_batches_setup:
  "process_batches fz cs topics es filename M batches = (ms, M') \<Longrightarrow> same_setup M M'"
proof (induction batches arbitrary: M ms M')
  case Nil
  then show ?case by (simp add: same_setup_def)
next
  case (Cons batch rest)
  obtain ms1 M1 where r1: "process_batch fz cs topics es filename M batch = (ms1, M1)" by fastforce
  obtain ms2 M2 where r2: "process_batches fz cs topics es filename M1 rest = (ms2, M2)" by fastforce
  from Cons.prems r1 r2 have "M' = M2" by simp
  with process_batch_setup[OF r1] Cons.IH[OF r2] show ?case by (simp add: same_setup_def)
qed

lemma candidate_final_setup: "same_setup M M' \<Longrightarrow> candidate_final M' = candidate_final M"
proof
  fix c
  assume "same_setup M M'"
  then have "ollamaHandler M' = ollamaHandler M" "config M' = config M"
    by (simp_all add: same_setup_def)
  then show "candidate_final M' c = candidate_final M c"
    by (simp add: candidate_final_def calculateFinalScore_def)
qed

section \<open>The sample inputs evaluated\<close>

lemmas text_simps = cleanText_def trim_def allowed_char_def is_space_def is_word_def split_count_def

lemma scenario_A_structure:
  "createDocumentStructure default_analyzer (js_sort reading_order) scenario_A = structure_A"
  by (simp add: createDocumentStructure_def scenario_A_def structure_A_def default_analyzer_def
      DocumentAnalyzer_constructor_def js_or_def process_page_def process_detection_def
      js_sort_def reading_order_def text_simps push_section_def postProcessStructure_def
      has_title_def count_detection_def empty_structure_def Let_def)

lemma scenario_B_structure:
  "createDocumentStructure default_analyzer (js_sort reading_order) scenario_B = structure_B"
  by (simp add: createDocumentStructure_def scenario_B_def structure_B_def default_analyzer_def
      DocumentAnalyzer_constructor_def js_or_def process_page_def process_detection_def
      js_sort_def reading_order_def text_simps push_section_def postProcessStructure_def
      has_title_def count_detection_def empty_structure_def Let_def)

lemmas index_simps = matcher_createSearchIndex_def analyzer_createSearchIndex_def
  title_element_def title_entry_def has_title_def section_elements_def section_entries_def
  header_element_def header_entry_def content_element_def content_entry_def entry_of_def
  toLowerCase_def lower_char_def char_of_def bit_Suc_0_iff

lemma index_A:
  "matcher_createSearchIndex structure_A =
     [\<lparr>e_type = ''title'', e_text = ''Form Design Guide'', e_page = 1, e_section = None,
       e_importance = 1, e_bbox = None\<rparr>,
      \<lparr>e_type = ''section-header'', e_text = ''Create Fillable PDFs'', e_page = 3,
       e_section = Some 1, e_importance = 8 / 10, e_bbox = Some [0, 0, 10, 10]\<rparr>,
      \<lparr>e_type = ''text'', e_text = ''Use the Prepare Form tool to add fields.'', e_page = 3,
       e_section = Some 1, e_importance = 6 / 10, e_bbox = Some [0, 40, 10, 50]\<rparr>]"
  by (simp add: index_simps structure_A_def)

lemma index_B:
  "matcher_createSearchIndex structure_B =
     [\<lparr>e_type = ''section-header'', e_text = ''Forms'', e_page = 1, e_section = Some 1,
       e_importance = 8 / 10, e_bbox = Some [0, 0, 10, 10]\<rparr>,
      \<lparr>e_type = ''list_item'', e_text = ''Open the Prepare Form tool'', e_page = 1,
       e_section = Some 1, e_importance = 5 / 10, e_bbox = Some [0, 20, 10, 30]\<rparr>]"
  by (simp add: index_simps structure_B_def)

lemma index_C:
  "matcher_createSearchIndex structure_C =
     [\<lparr>e_type = ''title'', e_text = ''Form Design Guide'', e_page = 1, e_section = None,
       e_importance = 1, e_bbox = None\<rparr>,
      \<lparr>e_type = ''section-header'', e_text = ''Create Fillable PDFs'', e_page = 3,
       e_section = Some 1, e_importance = 8 / 10, e_bbox = None\<rparr>,
      \<lparr>e_type = ''text'', e_text = ''Form fields collect data.'', e_page = 3,
       e_section = Some 1, e_importance = 6 / 10, e_bbox = None\<rparr>,
      \<lparr>e_type = ''text'', e_text = ''Use the Prepare Form tool.'', e_page = 3,
       e_section = Some 1, e_importance = 6 / 10, e_bbox = None\<rparr>,
      \<lparr>e_type = ''text'', e_text = ''Add text fields and buttons.'', e_page = 3,
       e_section = Some 1, e_importance = 6 / 10, e_bbox = None\<rparr>,
      \<lparr>e_type = ''text'', e_text = ''Set the tab order of fields.'', e_page = 4,
       e_section = Some 1, e_importance = 6 / 10, e_bbox = None\<rparr>,
      \<lparr>e_type = ''text'', e_text = ''Distribute the finished form.'', e_page = 4,
       e_section = Some 1, e_importance = 6 / 10, e_bbox = None\<rparr>]"
  by (simp add: index_simps structure_C_def)

lemmas matcher_simps = findBestMatches_def findTopicMatches_def scored_candidates_def
  calculateTraditionalScore_def calculateFinalScore_def make_match_def compare_matches_def
  js_sort_def toFixed3_def truncateText_def Let_def SemanticMatcher_constructor_def
  no_options_def js_or_def empty_stats_def createBatches_def createBatches_loop.simps slice_def

lemma judge_rejected:
  "getSemanticRelevance (OllamaHandler_constructor name) (failing_world n) topic content = 0"
  by (simp add: getSemanticRelevance_def executePrompt_def OllamaHandler_constructor_def js_or_def
      failing_world_def executePrompt_loop.simps)

lemma judge_answered:
  "getSemanticRelevance (OllamaHandler_constructor name) (answering_world n) topic content
     = (if length content < 10 then 0 else 9 / 10)"
  by (simp add: getSemanticRelevance_def executePrompt_def OllamaHandler_constructor_def js_or_def
      answering_world_def executePrompt_loop.simps trim_def is_space_def is_digit_def
      fraction_part_def parseFloat_def digits_value_def)


section \<open>Configuration and final score\<close>

text \<open>The constructor never yields the batch width 0, with which the batch loop would not end.\<close>

lemma constructed_batch_width:
  "0 < maxConcurrentAIRequests (config (SemanticMatcher_constructor h opts))"
  by (simp add: SemanticMatcher_constructor_def js_or_def split: option.splits)

text \<open>
  Claim C10. For each of the eight numeric options, constructing the component with
  the option set to 0 gives exactly the object obtained when the option is omitted,
  so the default is in force; in particular a \<open>minMatchScore\<close> or \<open>fuzzyWeight\<close> of 0
  cannot be set through the constructor.
\<close>

theorem zero_option_is_default:
  "SemanticMatcher_constructor h (opts\<lparr>opt_minMatchScore := Some 0\<rparr>)
     = SemanticMatcher_constructor h (opts\<lparr>opt_minMatchScore := None\<rparr>)
   \<and> SemanticMatcher_constructor h (opts\<lparr>opt_fuzzyWeight := Some 0\<rparr>)
     = SemanticMatcher_constructor h (opts\<lparr>opt_fuzzyWeight := None\<rparr>)
   \<and> SemanticMatcher_constructor h (opts\<lparr>opt_cosineWeight := Some 0\<rparr>)
     = SemanticMatcher_constructor h (opts\<lparr>opt_cosineWeight := None\<rparr>)
   \<and> SemanticMatcher_constructor h (opts\<lparr>opt_aiWeight := Some 0\<rparr>)
     = SemanticMatcher_constructor h (opts\<lparr>opt_aiWeight := None\<rparr>)
   \<and> SemanticMatcher_constructor h (opts\<lparr>opt_maxConcurrentAIRequests := Some 0\<rparr>)
     = SemanticMatcher_constructor h (opts\<lparr>opt_maxConcurrentAIRequests := None\<rparr>)
   \<and> DocumentAnalyzer_constructor (aopts\<lparr>opt_minTextLength := Some 0\<rparr>)
     = DocumentAnalyzer_constructor (aopts\<lparr>opt_minTextLength := None\<rparr>)
   \<and> DocumentAnalyzer_constructor (aopts\<lparr>opt_sectionThreshold := Some 0\<rparr>)
     = DocumentAnalyzer_constructor (aopts\<lparr>opt_sectionThreshold := None\<rparr>)
   \<and> DocumentAnalyzer_constructor (aopts\<lparr>opt_titleThreshold := Some 0\<rparr>)
     = DocumentAnalyzer_constructor (aopts\<lparr>opt_titleThreshold := None\<rparr>)
   \<and> minMatchScore (config (SemanticMatcher_constructor h (opts\<lparr>opt_minMatchScore := Some 0\<rparr>))) = 1 / 10
   \<and> fuzzyWeight (config (SemanticMatcher_constructor h (opts\<lparr>opt_fuzzyWeight := Some 0\<rparr>))) = 3 / 10
   \<and> cosineWeight (config (SemanticMatcher_constructor h (opts\<lparr>opt_cosineWeight := Some 0\<rparr>))) = 4 / 10
   \<and> aiWeight (config (SemanticMatcher_constructor h (opts\<lparr>opt_aiWeight := Some 0\<rparr>))) = 3 / 10
   \<and> maxConcurrentAIRequests
        (config (SemanticMatcher_constructor h (opts\<lparr>opt_maxConcurrentAIRequests := Some 0\<rparr>))) = 3
   \<and> minTextLength (DocumentAnalyzer_constructor (aopts\<lparr>opt_minTextLength := Some 0\<rparr>)) = 10
   \<and> sectionThreshold (DocumentAnalyzer_constructor (aopts\<lparr>opt_sectionThreshold := Some 0\<rparr>)) = 7 / 10
   \<and> titleThreshold (DocumentAnalyzer_constructor (aopts\<lparr>opt_titleThreshold := Some 0\<rparr>)) = 8 / 10"
  by (simp add: SemanticMatcher_constructor_def DocumentAnalyzer_constructor_def js_or_def)

text \<open>
  Claim C4. With a non-zero weight sum, the final score is the traditional score
  divided by \<open>fuzzyWeight + cosineWeight\<close> when no judge is configured (no handler,
  or AI mode switched off) or the AI score is exactly 0, and the blend of that
  quotient with the AI score otherwise; without a judge the result does not change
  when \<open>aiWeight\<close> is replaced by any other value.
\<close>

theorem calculateFinalScore_spec:
  assumes "fuzzyWeight (config M) + cosineWeight (config M) \<noteq> 0"
  shows "(\<not> judge_configured M \<or> a = 0 \<longrightarrow>
            calculateFinalScore M t a = t / (fuzzyWeight (config M) + cosineWeight (config M)))
       \<and> (judge_configured M \<and> a \<noteq> 0 \<longrightarrow>
            calculateFinalScore M t a
              = t / (fuzzyWeight (config M) + cosineWeight (config M)) * (1 - aiWeight (config M))
                + a * aiWeight (config M))
       \<and> (\<not> judge_configured M \<longrightarrow>
            calculateFinalScore (M\<lparr>config := (config M)\<lparr>aiWeight := w\<rparr>\<rparr>) t a
              = calculateFinalScore M t a)"
  by (simp add: calculateFinalScore_def judge_configured_def Let_def)

theorem calculateFinalScore_spec_witness:
  "fuzzyWeight (config plain_matcher) + cosineWeight (config plain_matcher) \<noteq> 0
   \<and> \<not> judge_configured plain_matcher
   \<and> calculateFinalScore plain_matcher (7 / 20) 0 = 1 / 2
   \<and> calculateFinalScore (plain_matcher\<lparr>config := (config plain_matcher)\<lparr>aiWeight := 9 / 10\<rparr>\<rparr>)
         (7 / 20) 0 = 1 / 2
   \<and> fuzzyWeight (config (judged_matcher answering_world))
         + cosineWeight (config (judged_matcher answering_world)) \<noteq> 0
   \<and> judge_configured (judged_matcher answering_world)
   \<and> calculateFinalScore (judged_matcher answering_world) (7 / 20) (9 / 10) = 62 / 100
   \<and> calculateFinalScore (judged_matcher answering_world) (7 / 20) 0 = 1 / 2"
  using calculateFinalScore_spec [of plain_matcher 0 "7 / 20" "9 / 10"]
    calculateFinalScore_spec [of "judged_matcher answering_world" "9 / 10" "7 / 20" 0]
    calculateFinalScore_spec [of "judged_matcher answering_world" 0 "7 / 20" 0]
  by (simp add: plain_matcher_def judged_matcher_def SemanticMatcher_constructor_def
      no_options_def js_or_def judge_configured_def)

section \<open>Scores lie in the unit interval\<close>

lemma traditional_range:
  assumes "unit_similarity fz" "unit_similarity cs" "default_weights M"
  shows "0 \<le> calculateTraditionalScore fz cs M topic content
       \<and> calculateTraditionalScore fz cs M topic content \<le> 7 / 10"
proof -
  have f: "0 \<le> fz topic content" "fz topic content \<le> 1"
    and c: "0 \<le> cs topic content" "cs topic content \<le> 1"
    using assms by (simp_all add: unit_similarity_def)
  have w: "fuzzyWeight (config M) = 3 / 10" "cosineWeight (config M) = 4 / 10"
    using assms(3) unfolding default_weights_def by blast+
  show ?thesis
    unfolding calculateTraditionalScore_def w using f c by auto
qed

lemma collect_candidates_ok:
  assumes "unit_similarity fz" "unit_similarity cs" "default_weights M"
  shows "\<forall>c\<in>set (collect_candidates fz cs M topic es). cand_ok c"
proof (induction es)
  case Nil
  then show ?case by simp
next
  case (Cons e es)
  with traditional_range[OF assms, of topic "e_text e"] show ?case
    by (simp add: Let_def cand_ok_def)
qed

lemma enhance_ok:
  assumes "unit_judge judge"
  shows "\<forall>c\<in>set cs. cand_ok c \<Longrightarrow> enhance judge topic cs M = (cs', M')
         \<Longrightarrow> (\<forall>c\<in>set cs'. cand_ok c) \<and> same_setup M M'"
proof (induction cs arbitrary: M cs' M')
  case Nil
  then show ?case by (simp add: same_setup_def)
next
  case (Cons c cs)
  show ?case
  proof (cases "judge (judgeCalls M) topic (e_text (cand_element c))")
    case (Inl e)
    let ?M1 = "M\<lparr>judgeCalls := judgeCalls M + 1,
                  stats := (stats M)\<lparr>failedAIMatches := failedAIMatches (stats M) + 1\<rparr>\<rparr>"
    obtain cs1 M1 where r: "enhance judge topic cs ?M1 = (cs1, M1)" by fastforce
    with Cons.prems Inl have eq: "cs' = c # cs1" "M' = M1" by simp_all
    from Cons.IH[OF _ r] Cons.prems(1) have "(\<forall>c\<in>set cs1. cand_ok c) \<and> same_setup ?M1 M1" by simp
    with eq Cons.prems(1) show ?thesis by (simp add: same_setup_def)
  next
    case (Inr s)
    let ?M1 = "M\<lparr>judgeCalls := judgeCalls M + 1,
                  stats := (stats M)\<lparr>aiEnhancedMatches := aiEnhancedMatches (stats M) + 1\<rparr>\<rparr>"
    obtain cs1 M1 where r: "enhance judge topic cs ?M1 = (cs1, M1)" by fastforce
    with Cons.prems Inr have eq: "cs' = c\<lparr>aiScore := s\<rparr> # cs1" "M' = M1" by simp_all
    have s: "0 \<le> s \<and> s \<le> 1"
      using assms Inr unfolding unit_judge_def
      by (metis (mono_tags, lifting) sum.simps(6))
    from Cons.IH[OF _ r] Cons.prems(1) have "(\<forall>c\<in>set cs1. cand_ok c) \<and> same_setup ?M1 M1" by simp
    with eq Cons.prems(1) s show ?thesis by (simp add: same_setup_def cand_ok_def)
  qed
qed

lemma scored_candidates_ok:
  assumes "unit_similarity fz" "unit_similarity cs" "default_weights M"
    and "\<forall>j. ollamaHandler M = Some j \<longrightarrow> unit_judge j"
    and "scored_candidates fz cs M topic es = (cands, M')"
  shows "(\<forall>c\<in>set cands. cand_ok c) \<and> same_setup M M'"
proof -
  let ?sorted = "js_sort (\<lambda>a b. traditionalScore b - traditionalScore a)
                   (collect_candidates fz cs M topic es)"
  have all: "\<forall>c\<in>set ?sorted. cand_ok c"
    using collect_candidates_ok[OF assms(1-3)] by (simp add: set_js_sort)
  show ?thesis
  proof (cases "ollamaHandler M")
    case None
    with assms(5) have "cands = ?sorted" "M' = M"
      by (auto simp: scored_candidates_def Let_def)
    with all show ?thesis by (simp add: same_setup_def)
  next
    case (Some judge)
    show ?thesis
    proof (cases "aiEnhancedMode (config M) \<and> take 5 ?sorted \<noteq> []")
      case False
      with Some assms(5) have "cands = ?sorted" "M' = M"
        by (auto simp: scored_candidates_def Let_def)
      with all show ?thesis by (simp add: same_setup_def)
    next
      case True
      obtain top' M1 where r: "enhance judge topic (take 5 ?sorted) M = (top', M1)" by fastforce
      with True Some assms(5) have eq: "cands = top' @ drop 5 ?sorted" "M' = M1"
        by (auto simp: scored_candidates_def Let_def)
      have "\<forall>c\<in>set (take 5 ?sorted). cand_ok c" using all by (meson in_set_takeD)
      from enhance_ok[OF _ this r] assms(4) Some
      have "(\<forall>c\<in>set top'. cand_ok c) \<and> same_setup M M1" by simp
      moreover have "\<forall>c\<in>set (drop 5 ?sorted). cand_ok c" using all by (meson in_set_dropD)
      ultimately show ?thesis using eq by auto
    qed
  qed
qed

lemma final_score_unit:
  assumes "default_weights M" "cand_ok c"
  shows "0 \<le> calculateFinalScore M (traditionalScore c) (aiScore c)
       \<and> calculateFinalScore M (traditionalScore c) (aiScore c) \<le> 1"
proof -
  have t: "0 \<le> traditionalScore c" "traditionalScore c \<le> 7 / 10"
    and a: "0 \<le> aiScore c" "aiScore c \<le> 1"
    using assms(2) by (simp_all add: cand_ok_def)
  have w: "fuzzyWeight (config M) = 3 / 10" "cosineWeight (config M) = 4 / 10"
      "aiWeight (config M) = 3 / 10"
    using assms(1) unfolding default_weights_def by blast+
  show ?thesis
    unfolding calculateFinalScore_def Let_def w using t a by auto
qed

lemma make_match_unit:
  assumes "0 \<le> f" "f \<le> 1" "cand_ok c"
  shows "unit_scores (make_match filename topic ti f c)"
proof -
  have "0 \<le> traditionalScore c" "traditionalScore c \<le> 1" "0 \<le> aiScore c" "aiScore c \<le> 1"
    using assms(3) by (simp_all add: cand_ok_def)
  with assms(1,2) show ?thesis
    by (simp add: unit_scores_def make_match_def toFixed3_unit)
qed

lemma emit_matches_unit:
  assumes "default_weights M"
  shows "\<forall>c\<in>set cands. cand_ok c \<Longrightarrow>
         \<forall>m\<in>set (emit_matches M filename topic ti cands). unit_scores m"
proof (induction cands)
  case Nil
  then show ?case by simp
next
  case (Cons c cands)
  then have "cand_ok c" by simp
  from final_score_unit[OF assms this] make_match_unit[OF _ _ this] Cons
  show ?case by (simp add: Let_def)
qed

lemma findTopicMatches_unit:
  assumes "unit_similarity fz" "unit_similarity cs" "default_weights M"
    and "\<forall>j. ollamaHandler M = Some j \<longrightarrow> unit_judge j"
    and "findTopicMatches fz cs M topic es filename ti = (ms, M')"
  shows "(\<forall>m\<in>set ms. unit_scores m) \<and> same_setup M M'"
proof -
  obtain cands M1 where sc: "scored_candidates fz cs M topic es = (cands, M1)" by fastforce
  from scored_candidates_ok[OF assms(1-4) sc]
  have ok: "\<forall>c\<in>set cands. cand_ok c" and same: "same_setup M M1" by simp_all
  from same assms(3) have dw: "default_weights M1" by (simp add: same_setup_def default_weights_def)
  from assms(5) sc have ms: "ms = emit_matches M1 filename topic ti cands"
    and M': "same_setup M1 M'"
    by (auto simp: findTopicMatches_def Let_def same_setup_def)
  from emit_matches_unit[OF dw ok] ms same M' show ?thesis by (simp add: same_setup_def)
qed

lemma process_batch_unit:
  assumes "unit_similarity fz" "unit_similarity cs"
  shows "default_weights M \<Longrightarrow> \<forall>j. ollamaHandler M = Some j \<longrightarrow> unit_judge j
         \<Longrightarrow> process_batch fz cs topics es filename M batch = (ms, M')
         \<Longrightarrow> (\<forall>m\<in>set ms. unit_scores m) \<and> same_setup M M'"
proof (induction batch arbitrary: M ms M')
  case Nil
  then show ?case by (simp add: same_setup_def)
next
  case (Cons topic rest)
  obtain ms1 M1 where r1: "findTopicMatches fz cs M topic es filename (indexOf topics topic) = (ms1, M1)"
    by fastforce
  obtain ms2 M2 where r2: "process_batch fz cs topics es filename M1 rest = (ms2, M2)" by fastforce
  from Cons.prems(3) r1 r2 have eq: "ms = ms1 @ ms2" "M' = M2" by simp_all
  from findTopicMatches_unit[OF assms Cons.prems(1,2) r1]
  have u1: "\<forall>m\<in>set ms1. unit_scores m" and s1: "same_setup M M1" by simp_all
  from s1 Cons.prems(1,2) have "default_weights M1" "\<forall>j. ollamaHandler M1 = Some j \<longrightarrow> unit_judge j"
    by (simp_all add: same_setup_def default_weights_def)
  from Cons.IH[OF this r2] have "(\<forall>m\<in>set ms2. unit_scores m) \<and> same_setup M1 M2" .
  with u1 s1 eq show ?case by (auto simp: same_setup_def)
qed

lemma process_batches_unit:
  assumes "unit_similarity fz" "unit_similarity cs"
  shows "default_weights M \<Longrightarrow> \<forall>j. ollamaHandler M = Some j \<longrightarrow> unit_judge j
         \<Longrightarrow> process_batches fz cs topics es filename M batches = (ms, M')
         \<Longrightarrow> (\<forall>m\<in>set ms. unit_scores m) \<and> same_setup M M'"
proof (induction batches arbitrary: M ms M')
  case Nil
  then show ?case by (simp add: same_setup_def)
next
  case (Cons batch rest)
  obtain ms1 M1 where r1: "process_batch fz cs topics es filename M batch = (ms1, M1)" by fastforce
  obtain ms2 M2 where r2: "process_batches fz cs topics es filename M1 rest = (ms2, M2)" by fastforce
  from Cons.prems(3) r1 r2 have eq: "ms = ms1 @ ms2" "M' = M2" by simp_all
  from process_batch_unit[OF assms Cons.prems(1,2) r1]
  have u1: "\<forall>m\<in>set ms1. unit_scores m" and s1: "same_setup M M1" by simp_all
  from s1 Cons.prems(1,2) have "default_weights M1" "\<forall>j. ollamaHandler M1 = Some j \<longrightarrow> unit_judge j"
    by (simp_all add: same_setup_def default_weights_def)
  from Cons.IH[OF this r2] have "(\<forall>m\<in>set ms2. unit_scores m) \<and> same_setup M1 M2" .
  with u1 s1 eq show ?case by (auto simp: same_setup_def)
qed

text \<open>
  Claim C1. When \<open>fuzzyMatch\<close> and \<open>cosineSimilarity\<close> return values in [0,1],
  the weights are the defaults 0.3, 0.4 and 0.3, the handler is absent or is the
  OllamaHandler, and the batch width is positive, \<open>findBestMatches\<close> returns, and
  \<open>match_score\<close>, \<open>traditional_score\<close> and \<open>ai_score\<close> of every match it returns lie
  in [0,1].
\<close>

theorem match_scores_in_unit_interval:
  assumes "unit_similarity fuzzyMatch" and "unit_similarity cosineSimilarity"
    and "default_weights M"
    and "ollamaHandler M = None \<or> ollamaHandler M = Some (ollama_judge h world)"
    and "0 < maxConcurrentAIRequests (config M)"
  shows "\<exists>ms M'. findBestMatches fuzzyMatch cosineSimilarity M topics ds filename = Some (ms, M')
           \<and> (\<forall>m\<in>set ms. 0 \<le> match_score m \<and> match_score m \<le> 1
                 \<and> 0 \<le> traditional_score m \<and> traditional_score m \<le> 1
                 \<and> 0 \<le> ai_score m \<and> ai_score m \<le> 1)"
proof -
  obtain batches where b: "createBatches topics (maxConcurrentAIRequests (config M)) = Some batches"
    using createBatches_closed[OF assms(5), of topics] by simp
  obtain ms0 M' where r: "process_batches fuzzyMatch cosineSimilarity topics
      (matcher_createSearchIndex ds) filename M batches = (ms0, M')" by fastforce
  have j: "\<forall>j. ollamaHandler M = Some j \<longrightarrow> unit_judge j"
    using assms(4) unit_judge_ollama by auto
  from process_batches_unit[OF assms(1,2,3) j r] have "\<forall>m\<in>set ms0. unit_scores m" by simp
  then have "\<forall>m\<in>set (js_sort compare_matches ms0). unit_scores m" by (simp add: set_js_sort)
  moreover have "findBestMatches fuzzyMatch cosineSimilarity M topics ds filename
                   = Some (js_sort compare_matches ms0, M')"
    using b r by (simp add: findBestMatches_def Let_def)
  ultimately show ?thesis by (simp add: unit_scores_def)
qed

theorem match_scores_in_unit_interval_witness:
  "unit_similarity sample_similarity
   \<and> default_weights (judged_matcher answering_world)
   \<and> ollamaHandler (judged_matcher answering_world)
        = Some (ollama_judge (OllamaHandler_constructor ''qwen'') answering_world)
   \<and> 0 < maxConcurrentAIRequests (config (judged_matcher answering_world))
   \<and> (case findBestMatches sample_similarity sample_similarity (judged_matcher answering_world)
              [''Form Creation''] structure_A ''a.pdf'' of
         None \<Rightarrow> False
       | Some (ms, M') \<Rightarrow>
           map (\<lambda>m. (match_score m, traditional_score m, ai_score m)) ms
             = [(97 / 100, 7 / 10, 9 / 10), (445 / 1000, 175 / 1000, 9 / 10),
                (445 / 1000, 175 / 1000, 9 / 10)])"
  using match_scores_in_unit_interval
          [of sample_similarity sample_similarity "judged_matcher answering_world"
              "OllamaHandler_constructor ''qwen''" answering_world
              "[''Form Creation'']" structure_A "''a.pdf''"]
  by (simp add: index_A matcher_simps judged_matcher_def sample_similarity_def ollama_judge_def
      judge_answered unit_similarity_def default_weights_def)

section \<open>The match list is sorted\<close>

lemma findBestMatches_sorted:
  assumes "0 < maxConcurrentAIRequests (config M)"
  shows "\<exists>ms M'. findBestMatches fz cs M topics ds filename = Some (ms, M')
           \<and> sorted_wrt match_order ms \<and> same_setup M M'"
proof -
  obtain batches where b: "createBatches topics (maxConcurrentAIRequests (config M)) = Some batches"
    using createBatches_closed[OF assms, of topics] by simp
  obtain ms0 M' where r: "process_batches fz cs topics
      (matcher_createSearchIndex ds) filename M batches = (ms0, M')" by fastforce
  have "findBestMatches fz cs M topics ds filename = Some (js_sort compare_matches ms0, M')"
    using b r by (simp add: findBestMatches_def Let_def)
  with process_batches_setup[OF r] show ?thesis by (simp add: sorted_js_sort_matches)
qed

lemma match_documents_returns:
  "0 < maxConcurrentAIRequests (config M)
   \<Longrightarrow> \<exists>ms M'. match_documents fz cs M topics docs = Some (ms, M')"
proof (induction docs arbitrary: M)
  case Nil
  then show ?case by simp
next
  case (Cons a docs)
  from findBestMatches_sorted[OF Cons.prems] obtain ms1 M1 where
    r1: "findBestMatches fz cs M topics (a_structure a) (a_filename a) = Some (ms1, M1)"
    and s: "same_setup M M1" by blast
  from s Cons.prems have "0 < maxConcurrentAIRequests (config M1)" by (simp add: same_setup_def)
  from Cons.IH[OF this] obtain ms2 M2 where "match_documents fz cs M1 topics docs = Some (ms2, M2)"
    by blast
  with r1 show ?case by simp
qed

text \<open>
  Claim C2. With a positive batch width and a non-zero weight sum, \<open>findBestMatches\<close>
  and the pipeline's \<open>performSemanticMatching\<close> return, and in the list each returns
  the importance rank never decreases and, between two matches of equal rank, the
  match score never increases.
\<close>

theorem matches_sorted:
  assumes width: "0 < maxConcurrentAIRequests (config M)"
    and "fuzzyWeight (config M) + cosineWeight (config M) \<noteq> 0"
  shows "(\<exists>ms M'. findBestMatches fz cs M topics ds filename = Some (ms, M')
              \<and> sorted_wrt match_order ms)
       \<and> (\<exists>ms M'. performSemanticMatching fz cs M topics analysisResults = Some (ms, M')
              \<and> sorted_wrt match_order ms)"
proof -
  from match_documents_returns[OF width] obtain ms M' where
    "match_documents fz cs M topics analysisResults = Some (ms, M')" by blast
  then have "performSemanticMatching fz cs M topics analysisResults
               = Some (js_sort compare_matches ms, M')"
    by (simp add: performSemanticMatching_def)
  with findBestMatches_sorted[OF width, of fz cs topics ds filename] show ?thesis
    by (auto simp: sorted_js_sort_matches)
qed

theorem matches_sorted_witness:
  "0 < maxConcurrentAIRequests (config plain_matcher)
   \<and> fuzzyWeight (config plain_matcher) + cosineWeight (config plain_matcher) \<noteq> 0
   \<and> (case findBestMatches sample_similarity sample_similarity plain_matcher
              [''Create tables'', ''Form Creation''] structure_A ''a.pdf'' of
         None \<Rightarrow> False
       | Some (ms, M') \<Rightarrow>
           map (\<lambda>m. (importance_rank m, match_score m)) ms
             = [(1, 1), (1, 1 / 4), (1, 1 / 4), (2, 1), (2, 1 / 4), (2, 1 / 4)]
           \<and> sorted_wrt match_order ms)
   \<and> (case performSemanticMatching sample_similarity sample_similarity plain_matcher
              [''Create tables'', ''Form Creation''] two_documents of
         None \<Rightarrow> False
       | Some (ms, M') \<Rightarrow>
           map (\<lambda>m. (importance_rank m, match_score m)) ms
             = [(1, 1), (1, 1 / 4), (1, 1 / 4), (1, 1 / 4), (1, 1 / 4),
                (2, 1), (2, 1), (2, 1 / 4), (2, 1 / 4), (2, 1 / 4)]
           \<and> sorted_wrt match_order ms)"
  using matches_sorted
          [of plain_matcher sample_similarity sample_similarity
              "[''Create tables'', ''Form Creation'']" structure_A "''a.pdf''" two_documents]
  by (simp add: index_A index_B matcher_simps plain_matcher_def sample_similarity_def
      performSemanticMatching_def two_documents_def match_order_def)

section \<open>The minimum-score filter\<close>

lemma emit_matches_filter:
  "emit_matches M filename topic ti cands
     = map (\<lambda>c. make_match filename topic ti (candidate_final M c) c)
         (filter (\<lambda>c. minMatchScore (config M) \<le> candidate_final M c) cands)"
  by (induction cands) (simp_all add: Let_def candidate_final_def)

text \<open>The last loop runs over all candidates: sorting and judging drop none.\<close>

lemma count_list_insert_by: "count_list (insert_by cmp x xs) y = count_list (x # xs) y"
  by (induction xs) auto

lemma count_list_js_sort: "count_list (js_sort cmp xs) y = count_list xs y"
  by (induction xs) (simp_all add: js_sort_def count_list_insert_by)

lemma map_insert_by_perm:
  "count_list (map f (insert_by cmp x xs)) y = count_list (map f (x # xs)) y"
  by (induction xs) auto

lemma map_js_sort_perm: "count_list (map f (js_sort cmp xs)) y = count_list (map f xs) y"
  by (induction xs) (simp_all add: js_sort_def map_insert_by_perm)

lemma collect_candidates_elements:
  "map cand_element (collect_candidates fz cs M topic es) = positive_elements fz cs M topic es"
  by (induction es) (simp_all add: positive_elements_def Let_def)

lemma collect_candidates_scores:
  "\<forall>c\<in>set (collect_candidates fz cs M topic es).
      traditionalScore c = calculateTraditionalScore fz cs M topic (e_text (cand_element c))
      \<and> aiScore c = 0"
  by (induction es) (simp_all add: Let_def)

lemma enhance_keeps:
  "enhance judge topic cs M = (cs', M')
   \<Longrightarrow> map (\<lambda>c. (cand_element c, traditionalScore c)) cs'
         = map (\<lambda>c. (cand_element c, traditionalScore c)) cs"
proof (induction cs arbitrary: M cs' M')
  case Nil
  then show ?case by simp
next
  case (Cons c cs)
  show ?case
  proof (cases "judge (judgeCalls M) topic (e_text (cand_element c))")
    case (Inl e)
    let ?M1 = "M\<lparr>judgeCalls := judgeCalls M + 1,
                  stats := (stats M)\<lparr>failedAIMatches := failedAIMatches (stats M) + 1\<rparr>\<rparr>"
    obtain cs1 M1 where r: "enhance judge topic cs ?M1 = (cs1, M1)" by fastforce
    with Cons.prems Inl have "cs' = c # cs1" by simp
    with Cons.IH[OF r] show ?thesis by simp
  next
    case (Inr s)
    let ?M1 = "M\<lparr>judgeCalls := judgeCalls M + 1,
                  stats := (stats M)\<lparr>aiEnhancedMatches := aiEnhancedMatches (stats M) + 1\<rparr>\<rparr>"
    obtain cs1 M1 where r: "enhance judge topic cs ?M1 = (cs1, M1)" by fastforce
    with Cons.prems Inr have "cs' = c\<lparr>aiScore := s\<rparr> # cs1" by simp
    with Cons.IH[OF r] show ?thesis by simp
  qed
qed

lemma scored_candidates_keeps:
  assumes "scored_candidates fz cs M topic es = (cands, M')"
  shows "map (\<lambda>c. (cand_element c, traditionalScore c)) cands
           = map (\<lambda>c. (cand_element c, traditionalScore c))
               (js_sort (\<lambda>a b. traditionalScore b - traditionalScore a)
                  (collect_candidates fz cs M topic es))
       \<and> drop 5 cands
           = drop 5 (js_sort (\<lambda>a b. traditionalScore b - traditionalScore a)
                       (collect_candidates fz cs M topic es))"
proof -
  let ?sorted = "js_sort (\<lambda>a b. traditionalScore b - traditionalScore a)
                   (collect_candidates fz cs M topic es)"
  let ?f = "\<lambda>c. (cand_element c, traditionalScore c)"
  show ?thesis
  proof (cases "ollamaHandler M")
    case None
    with assms have "cands = ?sorted" by (auto simp: scored_candidates_def Let_def)
    then show ?thesis by simp
  next
    case (Some judge)
    show ?thesis
    proof (cases "aiEnhancedMode (config M) \<and> take 5 ?sorted \<noteq> []")
      case False
      with Some assms have "cands = ?sorted" by (auto simp: scored_candidates_def Let_def)
      then show ?thesis by simp
    next
      case True
      obtain top' M1 where r: "enhance judge topic (take 5 ?sorted) M = (top', M1)" by fastforce
      with True Some assms have eq: "cands = top' @ drop 5 ?sorted"
        by (auto simp: scored_candidates_def Let_def)
      from enhance_keeps[OF r] have m: "map ?f top' = map ?f (take 5 ?sorted)" .
      then have "length top' = length (take 5 ?sorted)" by (rule map_eq_imp_length_eq)
      then have l: "length top' = min (length ?sorted) 5" by simp
      have "map ?f cands = map ?f top' @ map ?f (drop 5 ?sorted)"
        unfolding eq by simp
      also have "\<dots> = map ?f (take 5 ?sorted) @ map ?f (drop 5 ?sorted)"
        by (simp only: m)
      also have "\<dots> = map ?f (take 5 ?sorted @ drop 5 ?sorted)"
        by (simp only: map_append)
      also have "\<dots> = map ?f ?sorted"
        by (simp only: append_take_drop_id)
      finally have 1: "map ?f cands = map ?f ?sorted" .
      have 2: "drop 5 cands = drop 5 ?sorted"
        unfolding eq using l by (cases "5 \<le> length ?sorted") simp_all
      from 1 2 show ?thesis by simp
    qed
  qed
qed

lemma scored_candidates_all:
  assumes "scored_candidates fz cs M topic es = (cands, M')"
  shows "(\<forall>e. count_list (map cand_element cands) e
                 = count_list (positive_elements fz cs M topic es) e)
       \<and> length cands = length (positive_elements fz cs M topic es)
       \<and> (\<forall>c\<in>set cands.
             traditionalScore c = calculateTraditionalScore fz cs M topic (e_text (cand_element c)))
       \<and> (\<forall>c\<in>set (drop 5 cands). aiScore c = 0)"
proof -
  let ?coll = "collect_candidates fz cs M topic es"
  let ?sorted = "js_sort (\<lambda>a b. traditionalScore b - traditionalScore a) ?coll"
  let ?f = "\<lambda>c. (cand_element c, traditionalScore c)"
  from scored_candidates_keeps[OF assms]
  have m: "map ?f cands = map ?f ?sorted" and d: "drop 5 cands = drop 5 ?sorted" by simp_all
  from m have "map (fst \<circ> ?f) cands = map (fst \<circ> ?f) ?sorted"
    by (metis map_map)
  then have me: "map cand_element cands = map cand_element ?sorted" by (simp add: o_def)
  have 1: "count_list (map cand_element cands) e
             = count_list (positive_elements fz cs M topic es) e" for e
    unfolding me map_js_sort_perm collect_candidates_elements ..
  from me have "length cands = length ?sorted" by (rule map_eq_imp_length_eq)
  also have "\<dots> = length (map cand_element ?coll)" by (simp add: length_js_sort)
  finally have 2: "length cands = length (positive_elements fz cs M topic es)"
    by (simp only: collect_candidates_elements)
  have 3: "traditionalScore c = calculateTraditionalScore fz cs M topic (e_text (cand_element c))"
    if "c \<in> set cands" for c
  proof -
    from that have "?f c \<in> set (map ?f cands)" by simp
    then have "?f c \<in> set (map ?f ?sorted)" by (simp only: m)
    then obtain c0 where "c0 \<in> set ?coll" "?f c = ?f c0" by (auto simp: set_js_sort)
    with collect_candidates_scores[of fz cs M topic es] show ?thesis by auto
  qed
  have 4: "aiScore c = 0" if "c \<in> set (drop 5 cands)" for c
  proof -
    from that d have "c \<in> set ?sorted" by (auto dest: in_set_dropD)
    then have "c \<in> set ?coll" by (simp add: set_js_sort)
    with collect_candidates_scores[of fz cs M topic es] show ?thesis by auto
  qed
  from 1 2 3 4 show ?thesis by blast
qed

lemma emission_of_scored:
  assumes "fuzzyWeight (config M) + cosineWeight (config M) \<noteq> 0"
  shows "fst (findTopicMatches fz cs M topic searchIndex filename ti)
           = map (\<lambda>c. make_match filename topic ti (candidate_final M c) c)
               (filter (\<lambda>c. minMatchScore (config M) \<le> candidate_final M c)
                  (fst (scored_candidates fz cs M topic searchIndex)))
       \<and> (minMatchScore (config M) = of_int k / 1000 \<longrightarrow>
            (\<forall>m\<in>set (fst (findTopicMatches fz cs M topic searchIndex filename ti)).
                minMatchScore (config M) \<le> match_score m))"
proof -
  obtain cands M1 where sc: "scored_candidates fz cs M topic searchIndex = (cands, M1)"
    by fastforce
  from scored_candidates_setup[OF sc] have same: "same_setup M M1" .
  then have cf: "candidate_final M1 = candidate_final M"
    by (rule candidate_final_setup)
  from same have mm: "minMatchScore (config M1) = minMatchScore (config M)"
    by (simp add: same_setup_def)
  have ms: "fst (findTopicMatches fz cs M topic searchIndex filename ti)
          = emit_matches M1 filename topic ti cands"
    using sc by (simp add: findTopicMatches_def Let_def)
  have cands: "fst (scored_candidates fz cs M topic searchIndex) = cands"
    using sc by simp
  have first: "fst (findTopicMatches fz cs M topic searchIndex filename ti)
           = map (\<lambda>c. make_match filename topic ti (candidate_final M c) c)
               (filter (\<lambda>c. minMatchScore (config M) \<le> candidate_final M c) cands)"
    by (simp only: ms emit_matches_filter cf mm)
  have second: "minMatchScore (config M) \<le> match_score m"
    if grid: "minMatchScore (config M) = of_int k / 1000"
      and m: "m \<in> set (fst (findTopicMatches fz cs M topic searchIndex filename ti))" for m
  proof -
    from m have "m \<in> set (map (\<lambda>c. make_match filename topic ti (candidate_final M c) c)
               (filter (\<lambda>c. minMatchScore (config M) \<le> candidate_final M c) cands))"
      by (simp only: first)
    then obtain c where le: "minMatchScore (config M) \<le> candidate_final M c"
      and eq: "m = make_match filename topic ti (candidate_final M c) c" by auto
    have "match_score m = toFixed3 (candidate_final M c)"
      unfolding eq by (simp add: make_match_def)
    with toFixed3_ge_grid[OF grid le] show ?thesis by simp
  qed
  show ?thesis
  proof (intro conjI impI ballI)
    show "fst (findTopicMatches fz cs M topic searchIndex filename ti)
           = map (\<lambda>c. make_match filename topic ti (candidate_final M c) c)
               (filter (\<lambda>c. minMatchScore (config M) \<le> candidate_final M c)
                  (fst (scored_candidates fz cs M topic searchIndex)))"
      by (simp only: first cands)
  next
    fix m
    assume "minMatchScore (config M) = of_int k / 1000"
      and "m \<in> set (fst (findTopicMatches fz cs M topic searchIndex filename ti))"
    then show "minMatchScore (config M) \<le> match_score m" by (rule second)
  qed
qed

text \<open>
  Claim C3, amended. With a non-zero weight sum, the candidates the last loop of
  \<open>_findTopicMatches\<close> runs over are all the elements of the search index with a
  positive traditional score, each as often as it occurs there and with that score,
  those after the first five with the AI score 0; the matches of the topic are exactly
  the candidates whose final score is at least \<open>minMatchScore\<close>, in the order of the
  candidates, each with its final score rounded to three decimals; and when
  \<open>minMatchScore\<close> is a whole number of thousandths, as the default 0.1 is, every
  emitted \<open>match_score\<close> is at least \<open>minMatchScore\<close>.
\<close>

theorem emission_rule:
  assumes "fuzzyWeight (config M) + cosineWeight (config M) \<noteq> 0"
  shows "(\<forall>e. count_list (map cand_element (fst (scored_candidates fz cs M topic searchIndex))) e
                 = count_list (positive_elements fz cs M topic searchIndex) e)
       \<and> length (fst (scored_candidates fz cs M topic searchIndex))
           = length (positive_elements fz cs M topic searchIndex)
       \<and> (\<forall>c\<in>set (fst (scored_candidates fz cs M topic searchIndex)).
             traditionalScore c = calculateTraditionalScore fz cs M topic (e_text (cand_element c)))
       \<and> (\<forall>c\<in>set (drop 5 (fst (scored_candidates fz cs M topic searchIndex))). aiScore c = 0)
       \<and> fst (findTopicMatches fz cs M topic searchIndex filename ti)
           = map (\<lambda>c. make_match filename topic ti (candidate_final M c) c)
               (filter (\<lambda>c. minMatchScore (config M) \<le> candidate_final M c)
                  (fst (scored_candidates fz cs M topic searchIndex)))
       \<and> (minMatchScore (config M) = of_int k / 1000 \<longrightarrow>
            (\<forall>m\<in>set (fst (findTopicMatches fz cs M topic searchIndex filename ti)).
                minMatchScore (config M) \<le> match_score m))"
proof -
  obtain cands M1 where sc: "scored_candidates fz cs M topic searchIndex = (cands, M1)"
    by fastforce
  then have c: "fst (scored_candidates fz cs M topic searchIndex) = cands" by simp
  from scored_candidates_all[OF sc] emission_of_scored[OF assms, of fz cs topic searchIndex filename ti k]
  show ?thesis unfolding c by blast
qed

theorem emission_rule_witness:
  "fuzzyWeight (config (judged_matcher answering_world))
     + cosineWeight (config (judged_matcher answering_world)) \<noteq> 0
   \<and> minMatchScore (config (judged_matcher answering_world)) = of_int 100 / 1000
   \<and> length (positive_elements sample_similarity sample_similarity
                (judged_matcher answering_world) ''Form Creation''
                (matcher_createSearchIndex structure_C)) = 7
   \<and> map (\<lambda>m. (match_score m, traditional_score m, ai_score m))
        (fst (findTopicMatches sample_similarity sample_similarity
                (judged_matcher answering_world) ''Form Creation''
                (matcher_createSearchIndex structure_C) ''c.pdf'' 0))
       = [(97 / 100, 7 / 10, 9 / 10), (97 / 100, 7 / 10, 9 / 10),
          (445 / 1000, 175 / 1000, 9 / 10), (445 / 1000, 175 / 1000, 9 / 10),
          (445 / 1000, 175 / 1000, 9 / 10),
          (1 / 4, 175 / 1000, 0), (1 / 4, 175 / 1000, 0)]"
  using emission_rule
          [where M = "judged_matcher answering_world" and k = 100 and fz = sample_similarity
             and cs = sample_similarity and topic = "''Form Creation''"
             and searchIndex = "matcher_createSearchIndex structure_C"
             and filename = "''c.pdf''" and ti = 0]
  by (simp add: index_C matcher_simps judged_matcher_def sample_similarity_def
      candidate_final_def positive_elements_def ollama_judge_def judge_answered)

text \<open>
  As stated, claim C3 fails: with \<open>minMatchScore\<close> 0.1252 a candidate of final score
  0.1253 is emitted, and its \<open>match_score\<close> is the rounded 0.125.
\<close>

theorem rounded_score_below_threshold:
  "fst (findTopicMatches near_similarity near_similarity strict_matcher
          ''Form Creation'' (matcher_createSearchIndex structure_A) ''a.pdf'' 0) \<noteq> []
   \<and> match_score
         (hd (fst (findTopicMatches near_similarity near_similarity strict_matcher
                     ''Form Creation'' (matcher_createSearchIndex structure_A) ''a.pdf'' 0)))
       = 125 / 1000
   \<and> minMatchScore (config strict_matcher) = 1252 / 10000
   \<and> match_score
         (hd (fst (findTopicMatches near_similarity near_similarity strict_matcher
                     ''Form Creation'' (matcher_createSearchIndex structure_A) ''a.pdf'' 0)))
       < minMatchScore (config strict_matcher)"
  by (simp add: index_A matcher_simps strict_matcher_def near_similarity_def)

section \<open>Retained sections\<close>

lemma number_sections_fields:
  "s \<in> set (number_sections i xs) \<Longrightarrow>
   \<exists>s0\<in>set xs. s_content s = s_content s0 \<and> s_title s = s_title s0"
  by (induction i xs rule: number_sections.induct) auto

lemma sections_postProcessStructure:
  "sections (postProcessStructure st)
     = number_sections 0
         (js_sort (\<lambda>a b. real (s_page a) - real (s_page b))
            (filter (\<lambda>s. s_content s \<noteq> [] \<or> 3 < length (s_title s)) (sections st)))"
  by (simp add: postProcessStructure_def Let_def split: list.splits)

text \<open>
  Claim C5. Whatever the page results and whatever order the reading-order sort
  gives, every section of the structure \<open>createDocumentStructure\<close> returns has content
  or a title longer than 3 characters.
\<close>

theorem retained_sections:
  "\<forall>s\<in>set (sections (createDocumentStructure an sort_detections pageResults)).
      s_content s \<noteq> [] \<or> 3 < length (s_title s)"
proof
  fix s
  let ?state = "foldl (process_page an sort_detections) (empty_structure, None) pageResults"
  let ?st = "push_section (snd ?state) (fst ?state)"
  assume "s \<in> set (sections (createDocumentStructure an sort_detections pageResults))"
  then have "s \<in> set (sections (postProcessStructure ?st))"
    unfolding createDocumentStructure_def Let_def .
  then have "s \<in> set (number_sections 0
         (js_sort (\<lambda>a b. real (s_page a) - real (s_page b))
            (filter (\<lambda>s. s_content s \<noteq> [] \<or> 3 < length (s_title s)) (sections ?st))))"
    unfolding sections_postProcessStructure .
  from number_sections_fields[OF this] obtain s0 where
    "s0 \<in> set (filter (\<lambda>s. s_content s \<noteq> [] \<or> 3 < length (s_title s)) (sections ?st))"
    and eq: "s_content s = s_content s0" "s_title s = s_title s0"
    unfolding set_js_sort by blast
  then show "s_content s \<noteq> [] \<or> 3 < length (s_title s)" by simp
qed

theorem retained_sections_witness:
  "sections (createDocumentStructure default_analyzer (js_sort reading_order) scenario_A) \<noteq> []
   \<and> list_all (\<lambda>s. s_content s \<noteq> [] \<or> 3 < length (s_title s))
        (sections (createDocumentStructure default_analyzer (js_sort reading_order) scenario_A))"
  using retained_sections[of default_analyzer "js_sort reading_order" scenario_A]
  by (simp add: list_all_iff scenario_A_structure structure_A_def)

(* C6 *)

section \<open>The two search indexes\<close>


















section \<open>Importance rank and repeated topics\<close>

text \<open>
  Claim C7 fails on the code. With the topic list \<open>repeated_topics\<close>, whose third
  topic repeats the first, the matches of the third topic carry rank 1, the rank
  \<open>topics.indexOf\<close> gives the first occurrence, and no match carries rank 3.
\<close>

theorem repeated_topic_rank:
  "map (\<lambda>m. (m_topic m, importance_rank m))
     (fst (process_batch sample_similarity sample_similarity repeated_topics
             (matcher_createSearchIndex structure_A) ''a.pdf'' plain_matcher repeated_topics))
     = [(''Form Creation'', 1), (''Form Creation'', 1), (''Form Creation'', 1),
        (''Create tables'', 2), (''Create tables'', 2), (''Create tables'', 2),
        (''Form Creation'', 1), (''Form Creation'', 1), (''Form Creation'', 1)]
   \<and> (case findBestMatches sample_similarity sample_similarity plain_matcher
              repeated_topics structure_A ''a.pdf'' of
         None \<Rightarrow> False
       | Some (ms, M') \<Rightarrow> map importance_rank ms = [1, 1, 1, 1, 1, 1, 2, 2, 2])"
  by (simp add: index_A matcher_simps plain_matcher_def sample_similarity_def repeated_topics_def)

section \<open>A judge that always fails\<close>

text \<open>
  With the OllamaHandler as the judge no run of \<open>findBestMatches\<close> changes
  \<open>failedAIMatches\<close>, whatever the external model does.
\<close>

lemma enhance_ollama_failed:
  "enhance (ollama_judge h world) topic cs M = (cs', M')
   \<Longrightarrow> failedAIMatches (stats M') = failedAIMatches (stats M)"
proof (induction cs arbitrary: M cs' M')
  case Nil
  then show ?case by simp
next
  case (Cons c cs)
  let ?M1 = "M\<lparr>judgeCalls := judgeCalls M + 1,
                stats := (stats M)\<lparr>aiEnhancedMatches := aiEnhancedMatches (stats M) + 1\<rparr>\<rparr>"
  obtain cs1 M1 where r: "enhance (ollama_judge h world) topic cs ?M1 = (cs1, M1)" by fastforce
  with Cons.prems have "M' = M1" by (simp add: ollama_judge_def)
  with Cons.IH[OF r] show ?case by simp
qed

lemma findTopicMatches_ollama_failed:
  assumes "ollamaHandler M = Some (ollama_judge h world)"
    and "findTopicMatches fz cs M topic es filename ti = (ms, M')"
  shows "failedAIMatches (stats M') = failedAIMatches (stats M)"
proof -
  let ?sorted = "js_sort (\<lambda>a b. traditionalScore b - traditionalScore a)
                   (collect_candidates fz cs M topic es)"
  obtain cands M1 where sc: "scored_candidates fz cs M topic es = (cands, M1)" by fastforce
  with assms(2) have M': "failedAIMatches (stats M') = failedAIMatches (stats M1)"
    by (auto simp: findTopicMatches_def Let_def)
  have "failedAIMatches (stats M1) = failedAIMatches (stats M)"
  proof (cases "aiEnhancedMode (config M) \<and> take 5 ?sorted \<noteq> []")
    case False
    with assms(1) sc have "M1 = M" by (auto simp: scored_candidates_def Let_def)
    then show ?thesis by simp
  next
    case True
    obtain top' M2 where r: "enhance (ollama_judge h world) topic (take 5 ?sorted) M = (top', M2)"
      by fastforce
    with True assms(1) sc have "M1 = M2" by (auto simp: scored_candidates_def Let_def)
    with enhance_ollama_failed[OF r] show ?thesis by simp
  qed
  with M' show ?thesis by simp
qed

lemma process_batch_ollama_failed:
  "ollamaHandler M = Some (ollama_judge h world)
   \<Longrightarrow> process_batch fz cs topics es filename M batch = (ms, M')
   \<Longrightarrow> failedAIMatches (stats M') = failedAIMatches (stats M)"
proof (induction batch arbitrary: M ms M')
  case Nil
  then show ?case by simp
next
  case (Cons topic rest)
  obtain ms1 M1 where r1: "findTopicMatches fz cs M topic es filename (indexOf topics topic) = (ms1, M1)"
    by fastforce
  obtain ms2 M2 where r2: "process_batch fz cs topics es filename M1 rest = (ms2, M2)" by fastforce
  from Cons.prems(2) r1 r2 have eq: "M' = M2" by simp
  from findTopicMatches_setup[OF r1] Cons.prems(1)
  have h1: "ollamaHandler M1 = Some (ollama_judge h world)" by (simp add: same_setup_def)
  from findTopicMatches_ollama_failed[OF Cons.prems(1) r1] Cons.IH[OF h1 r2] eq
  show ?case by simp
qed

lemma process_batches_ollama_failed:
  "ollamaHandler M = Some (ollama_judge h world)
   \<Longrightarrow> process_batches fz cs topics es filename M batches = (ms, M')
   \<Longrightarrow> failedAIMatches (stats M') = failedAIMatches (stats M)"
proof (induction batches arbitrary: M ms M')
  case Nil
  then show ?case by simp
next
  case (Cons batch rest)
  obtain ms1 M1 where r1: "process_batch fz cs topics es filename M batch = (ms1, M1)" by fastforce
  obtain ms2 M2 where r2: "process_batches fz cs topics es filename M1 rest = (ms2, M2)" by fastforce
  from Cons.prems(2) r1 r2 have eq: "M' = M2" by simp
  from process_batch_setup[OF r1] Cons.prems(1)
  have h1: "ollamaHandler M1 = Some (ollama_judge h world)" by (simp add: same_setup_def)
  from process_batch_ollama_failed[OF Cons.prems(1) r1] Cons.IH[OF h1 r2] eq
  show ?case by simp
qed

lemma findBestMatches_ollama_failed:
  assumes "ollamaHandler M = Some (ollama_judge h world)"
    and "findBestMatches fz cs M topics ds filename = Some (ms, M')"
  shows "failedAIMatches (stats M') = failedAIMatches (stats M)"
proof -
  from assms(2) obtain batches ms0 where
    "process_batches fz cs topics (matcher_createSearchIndex ds) filename M batches = (ms0, M')"
    by (auto simp: findBestMatches_def Let_def split: option.splits prod.splits)
  from process_batches_ollama_failed[OF assms(1) this] show ?thesis .
qed

text \<open>
  Claim C8 fails on the code. When every attempt of every judge call fails,
  \<open>findBestMatches\<close> returns and every \<open>ai_score\<close> is 0, but \<open>getSemanticRelevance\<close>
  has turned the failure into the score 0, so \<open>failedAIMatches\<close> stays 0 and
  \<open>aiEnhancedMatches\<close> counts the three calls. A handler that rejects is counted as
  failed.
\<close>

theorem failed_judge_not_counted:
  "(case findBestMatches sample_similarity sample_similarity (judged_matcher failing_world)
           [''Form Creation''] structure_A ''a.pdf'' of
      None \<Rightarrow> False
    | Some (ms, M') \<Rightarrow>
        map ai_score ms = [0, 0, 0]
        \<and> failedAIMatches (stats M') = 0
        \<and> aiEnhancedMatches (stats M') = 3)
   \<and> (case findBestMatches sample_similarity sample_similarity rejecting_matcher
              [''Form Creation''] structure_A ''a.pdf'' of
         None \<Rightarrow> False
       | Some (ms, M') \<Rightarrow>
           map ai_score ms = [0, 0, 0]
           \<and> failedAIMatches (stats M') = 3
           \<and> aiEnhancedMatches (stats M') = 0)"
  by (simp add: index_A matcher_simps judged_matcher_def rejecting_matcher_def
      sample_similarity_def ollama_judge_def judge_rejected)

section \<open>Batches and their order\<close>

text \<open>The calls the scheduler counts for a topic are the calls the matcher makes.\<close>

lemma enhance_judge_calls:
  "enhance judge topic cs M = (cs', M') \<Longrightarrow> judgeCalls M' = judgeCalls M + length cs"
proof (induction cs arbitrary: M cs' M')
  case Nil
  then show ?case by simp
next
  case (Cons c cs)
  show ?case
  proof (cases "judge (judgeCalls M) topic (e_text (cand_element c))")
    case (Inl e)
    let ?M1 = "M\<lparr>judgeCalls := judgeCalls M + 1,
                  stats := (stats M)\<lparr>failedAIMatches := failedAIMatches (stats M) + 1\<rparr>\<rparr>"
    obtain cs1 M1 where r: "enhance judge topic cs ?M1 = (cs1, M1)" by fastforce
    with Cons.prems Inl have "M' = M1" by simp
    with Cons.IH[OF r] show ?thesis by simp
  next
    case (Inr s)
    let ?M1 = "M\<lparr>judgeCalls := judgeCalls M + 1,
                  stats := (stats M)\<lparr>aiEnhancedMatches := aiEnhancedMatches (stats M) + 1\<rparr>\<rparr>"
    obtain cs1 M1 where r: "enhance judge topic cs ?M1 = (cs1, M1)" by fastforce
    with Cons.prems Inr have "M' = M1" by simp
    with Cons.IH[OF r] show ?thesis by simp
  qed
qed

lemma findTopicMatches_judge_calls:
  assumes "findTopicMatches fz cs M topic es filename ti = (ms, M')"
  shows "judgeCalls M' = judgeCalls M + judge_call_count fz cs M es topic"
proof -
  let ?sorted = "js_sort (\<lambda>a b. traditionalScore b - traditionalScore a)
                   (collect_candidates fz cs M topic es)"
  obtain cands M1 where sc: "scored_candidates fz cs M topic es = (cands, M1)" by fastforce
  with assms have M': "judgeCalls M' = judgeCalls M1"
    by (auto simp: findTopicMatches_def Let_def)
  have len: "length (take 5 ?sorted) = length (take 5 (collect_candidates fz cs M topic es))"
    by (simp add: length_js_sort)
  have "judgeCalls M1 = judgeCalls M + judge_call_count fz cs M es topic"
  proof (cases "ollamaHandler M")
    case None
    with sc have "M1 = M" by (auto simp: scored_candidates_def Let_def)
    with None show ?thesis by (simp add: judge_call_count_def judge_configured_def)
  next
    case (Some judge)
    show ?thesis
    proof (cases "aiEnhancedMode (config M) \<and> take 5 ?sorted \<noteq> []")
      case False
      with Some sc have "M1 = M" by (auto simp: scored_candidates_def Let_def)
      moreover from False len have "judge_call_count fz cs M es topic = 0"
        by (auto simp: judge_call_count_def judge_configured_def)
      ultimately show ?thesis by simp
    next
      case True
      obtain top' M2 where r: "enhance judge topic (take 5 ?sorted) M = (top', M2)" by fastforce
      with True Some sc have "M1 = M2" by (auto simp: scored_candidates_def Let_def)
      with enhance_judge_calls[OF r] True Some len show ?thesis
        by (simp add: judge_call_count_def judge_configured_def)
    qed
  qed
  with M' show ?thesis by simp
qed

(* the OllamaHandler never lets the matcher count a failure *)












end
